theory Spec2Isabelle
  imports Main "HOL-Library.Sublist"
begin

section \<open>JavaScript strings\<close>

text \<open>
  A JavaScript string is a sequence of UTF-16 code units. The model is \<open>string\<close>, a list of
  8-bit characters, read as the code units \<open>0\<close> to \<open>255\<close> (Latin-1): every function below
  does on such a string what the JavaScript built-in does on the same code units.
\<close>

text \<open>\<open>\d\<close>: the ten ASCII digits.\<close>

definition digits :: string where
  "digits = ''0123456789''"

definition isDigit :: "char \<Rightarrow> bool" where
  "isDigit c = (c \<in> set digits)"

text \<open>
  \<open>\s\<close>, and what \<open>trim()\<close> strips: the white space and line terminators of ECMAScript,
  which below 256 are TAB, LF, VT, FF, CR, SPACE and NO-BREAK SPACE.
\<close>

definition NL :: char where
  "NL = CHR 0x0A"

definition isSpace :: "char \<Rightarrow> bool" where
  "isSpace c = (c \<in> set [CHR 0x09, CHR 0x0A, CHR 0x0B, CHR 0x0C, CHR 0x0D, CHR 0x20, CHR 0xA0])"

text \<open>
  The letters below 256 that have another case there: \<open>A\<close>-\<open>Z\<close> and the Latin-1 capitals
  \<open>0xC0\<close>-\<open>0xDE\<close> without the multiplication sign \<open>0xD7\<close>, each 32 below its small
  letter (\<open>a\<close>-\<open>z\<close>, and \<open>0xE0\<close>-\<open>0xFE\<close> without the division sign \<open>0xF7\<close>).
\<close>

definition upper_letters :: string where
  "upper_letters = ''ABCDEFGHIJKLMNOPQRSTUVWXYZ'' @
     [CHR 0xC0, CHR 0xC1, CHR 0xC2, CHR 0xC3, CHR 0xC4, CHR 0xC5, CHR 0xC6, CHR 0xC7, CHR 0xC8, CHR 0xC9, CHR 0xCA, CHR 0xCB, CHR 0xCC, CHR 0xCD, CHR 0xCE, CHR 0xCF,
      CHR 0xD0, CHR 0xD1, CHR 0xD2, CHR 0xD3, CHR 0xD4, CHR 0xD5, CHR 0xD6, CHR 0xD8, CHR 0xD9, CHR 0xDA, CHR 0xDB, CHR 0xDC, CHR 0xDD, CHR 0xDE]"

definition lower_letters :: string where
  "lower_letters = ''abcdefghijklmnopqrstuvwxyz'' @
     [CHR 0xE0, CHR 0xE1, CHR 0xE2, CHR 0xE3, CHR 0xE4, CHR 0xE5, CHR 0xE6, CHR 0xE7, CHR 0xE8, CHR 0xE9, CHR 0xEA, CHR 0xEB, CHR 0xEC, CHR 0xED, CHR 0xEE, CHR 0xEF,
      CHR 0xF0, CHR 0xF1, CHR 0xF2, CHR 0xF3, CHR 0xF4, CHR 0xF5, CHR 0xF6, CHR 0xF8, CHR 0xF9, CHR 0xFA, CHR 0xFB, CHR 0xFC, CHR 0xFD, CHR 0xFE]"

text \<open>\<open>String.prototype.toLowerCase\<close>, code unit by code unit.\<close>

definition toLowerChar :: "char \<Rightarrow> char" where
  "toLowerChar c = (case map_of (zip upper_letters lower_letters) c of None \<Rightarrow> c | Some l \<Rightarrow> l)"

definition toLowerCase :: "string \<Rightarrow> string" where
  "toLowerCase s = map toLowerChar s"

text \<open>
  \<open>Canonicalize\<close> of a regular expression with the \<open>i\<close> flag (no \<open>u\<close> flag): the upper-case
  form of the code unit when that is one code unit, except that a code unit from 128 on is
  never mapped below 128. The upper-case forms of \<open>0xB5\<close> and \<open>0xFF\<close> lie beyond 255 and
  are the image of no other code unit below 256, and \<open>0xDF\<close> has a two-unit upper-case
  form, so these three stay as they are.
\<close>

definition canonicalize :: "char \<Rightarrow> char" where
  "canonicalize c = (case map_of (zip lower_letters upper_letters) c of None \<Rightarrow> c | Some u \<Rightarrow> u)"

text \<open>\<open>s.includes(p)\<close>: \<open>p\<close> occurs in \<open>s\<close> as a contiguous run.\<close>

fun str_includes :: "string \<Rightarrow> string \<Rightarrow> bool" where
  "str_includes [] p = (p = [])"
| "str_includes (c # cs) p = (prefix p (c # cs) \<or> str_includes cs p)"

definition startsWith :: "string \<Rightarrow> string \<Rightarrow> bool" where
  "startsWith s p = prefix p s"

definition endsWith :: "string \<Rightarrow> string \<Rightarrow> bool" where
  "endsWith s p = suffix p s"

definition trim :: "string \<Rightarrow> string" where
  "trim s = rev (dropWhile isSpace (rev (dropWhile isSpace s)))"

text \<open>\<open>s.split('\n')\<close>: the pieces between line feeds; the empty string gives one empty piece.\<close>

fun split_lines :: "string \<Rightarrow> string list" where
  "split_lines [] = [[]]"
| "split_lines (c # cs) =
     (if c = NL then [] # split_lines cs
      else (case split_lines cs of [] \<Rightarrow> [[c]] | l # ls \<Rightarrow> (c # l) # ls))"

text \<open>\<open>lines.join('\n')\<close>.\<close>

fun join_lines :: "string list \<Rightarrow> string" where
  "join_lines [] = []"
| "join_lines [l] = l"
| "join_lines (l # ls) = l @ NL # join_lines ls"

text \<open>
  \<open>parseInt(ds, 10)\<close> on a string of digits, and the decimal numeral a template literal
  prints for a non-negative integer. The numbers printed are counts, exit codes and
  timeouts in milliseconds, taken to be integers below \<open>10^21\<close>: from there on JavaScript
  prints an exponent (\<open>1e+21\<close>), which \<open>show_nat\<close> does not.
\<close>

definition digit_val :: "char \<Rightarrow> int" where
  "digit_val c = (case map_of (zip digits [0, 1, 2, 3, 4, 5, 6, 7, 8, 9]) c of None \<Rightarrow> 0 | Some d \<Rightarrow> d)"

definition parseInt10 :: "string \<Rightarrow> int" where
  "parseInt10 ds = foldl (\<lambda>n c. 10 * n + digit_val c) 0 ds"

function show_nat :: "nat \<Rightarrow> string" where
  "show_nat n = (if n < 10 then [digits ! n] else show_nat (n div 10) @ [digits ! (n mod 10)])"
  by pat_completeness auto
termination
  by (relation "measure (\<lambda>n. n)") auto

declare show_nat.simps [simp del]

section \<open>Regular expressions\<close>

text \<open>
  The regular expressions of the source use literals, character classes, sequence,
  alternation, \<open>?\<close>, \<open>*\<close>, \<open>+\<close> and one capturing group each, all with the \<open>i\<close> flag.
  \<open>rx_match\<close> is the backtracking matcher of ECMAScript on this fragment: from a position
  (the rest of the input, with what group 1 has captured so far) it lists every way the
  expression can match, in the order in which backtracking tries them. Greedy operators try
  the longer match first; an iteration of \<open>*\<close> that consumes nothing is rejected. The first
  element of the list is the match JavaScript reports.
\<close>

datatype rx =
    Eps
  | Lit char
  | Cls "char \<Rightarrow> bool"
  | Seq rx rx
  | Alt rx rx
  | Opt rx
  | Star rx
  | Grp rx

type_synonym mstate = "string \<times> string option"

function (sequential) rx_match :: "rx \<Rightarrow> mstate \<Rightarrow> mstate list" where
  "rx_match Eps st = [st]"
| "rx_match (Lit a) (s, cap) =
     (case s of [] \<Rightarrow> [] | c # t \<Rightarrow> if canonicalize c = canonicalize a then [(t, cap)] else [])"
| "rx_match (Cls P) (s, cap) =
     (case s of [] \<Rightarrow> [] | c # t \<Rightarrow> if P c then [(t, cap)] else [])"
| "rx_match (Seq r1 r2) st = concat (map (rx_match r2) (rx_match r1 st))"
| "rx_match (Alt r1 r2) st = rx_match r1 st @ rx_match r2 st"
| "rx_match (Opt r) st = rx_match r st @ [st]"
| "rx_match (Star r) st =
     concat (map (\<lambda>st'. if length (fst st') < length (fst st) then rx_match (Star r) st' else [])
                 (rx_match r st)) @ [st]"
| "rx_match (Grp r) (s, cap) =
     map (\<lambda>(t, _). (t, Some (take (length s - length t) s))) (rx_match r (s, cap))"
  by pat_completeness auto
termination
  by (relation "measures [\<lambda>(r, st). size r, \<lambda>(r, st). length (fst st)]") auto

text \<open>The equation of \<open>Star\<close> unfolds into itself: it is used by name only.\<close>

lemmas rx_match_Star = rx_match.simps(7)

declare rx_match.simps(7) [simp del]

definition Plus :: "rx \<Rightarrow> rx" where
  "Plus r = Seq r (Star r)"

definition Str :: "string \<Rightarrow> rx" where
  "Str s = foldr (\<lambda>c r. Seq (Lit c) r) s Eps"

text \<open>
  \<open>s.match(re)\<close> for an expression without the \<open>g\<close> flag: the match at the leftmost
  position that has one, tried at every position up to the end of the input. The result is
  the text of group 1.
\<close>

fun rx_search :: "rx \<Rightarrow> string \<Rightarrow> string option" where
  "rx_search r s =
     (case rx_match r (s, None) of
        (t, cap) # _ \<Rightarrow> Some (case cap of None \<Rightarrow> [] | Some g \<Rightarrow> g)
      | [] \<Rightarrow> (case s of [] \<Rightarrow> None | _ # s' \<Rightarrow> rx_search r s'))"

declare rx_search.simps [simp del]

text \<open>
  \<open>s.replace(re, '')\<close> for an expression that starts with \<open>^\<close> (no \<open>g\<close>, no \<open>m\<close> flag):
  the match is tried at position 0 only, and removed.
\<close>

definition rx_strip_prefix :: "rx \<Rightarrow> string \<Rightarrow> string" where
  "rx_strip_prefix r s = (case rx_match r (s, None) of [] \<Rightarrow> s | (t, cap) # _ \<Rightarrow> t)"

section \<open>The Codex CLI wrapper service (\<open>services/codex.ts\<close>)\<close>

subsection \<open>Data model\<close>

record CodexExecutionOptions =
  planContent :: string
  projectPath :: string
  applyChanges :: "bool option"
  timeout :: "nat option"
  additionalInstructions :: "string option"

datatype SuggestionType = code_change | dependency | architecture | security | performance | other

datatype Severity = info | warning | error

record CodexSuggestion =
  sg_type :: SuggestionType
  sg_file :: "string option"
  sg_description :: string
  sg_suggestion :: string
  sg_severity :: Severity

record CodexFeasibility =
  score :: int
  blockers :: "string list"
  risks :: "string list"
  dependencies_missing :: "string list"

record CodexCodeReview =
  suggestions :: "CodexSuggestion list"
  best_practice_violations :: "string list"
  improvements :: "string list"

text \<open>\<open>estimated_complexity\<close> is one of the strings \<open>low\<close>, \<open>medium\<close>, \<open>high\<close>.\<close>

record CodexImplementationAnalysis =
  completeness :: int
  gaps :: "string list"
  estimated_complexity :: string

text \<open>What \<open>parseCodexOutput\<close> and \<open>getDefaultParsedResult\<close> return.\<close>

record ParsedResult =
  feasibility :: CodexFeasibility
  codeReview :: CodexCodeReview
  implementationAnalysis :: CodexImplementationAnalysis
  changesApplied :: "string list"

datatype Mode = suggest | apply_mode

datatype ExecutionPath = codex_cli | openai_api

record CodexResult = ParsedResult +
  success :: bool
  mode :: Mode
  executionPath :: ExecutionPath
  rawOutput :: string
  rawError :: string
  error_msg :: "string option"
  quotaExhausted :: "bool option"

subsection \<open>The expressions of \<open>parseCodexOutput\<close>\<close>

text \<open>\<open>[:\s]*\<close>\<close>

definition colon_space :: rx where
  "colon_space = Star (Cls (\<lambda>c. c = CHR '':'' \<or> isSpace c))"

text \<open>\<open>((?:[-*\d.]\s*[^\n]+\n?)+)\<close>: the block of list lines, group 1.\<close>

definition isBullet :: "char \<Rightarrow> bool" where
  "isBullet c = (c = CHR ''-'' \<or> c = CHR ''*'' \<or> isDigit c \<or> c = CHR ''.'')"

definition list_block :: rx where
  "list_block =
     Grp (Plus (Seq (Cls isBullet) (Seq (Star (Cls isSpace))
                (Seq (Plus (Cls (\<lambda>c. c \<noteq> NL))) (Opt (Lit NL))))))"

text \<open>A header, then \<open>[:\s]*\n\<close>, then the block.\<close>

definition section_rx :: "rx \<Rightarrow> rx" where
  "section_rx header = Seq header (Seq colon_space (Seq (Lit NL) list_block))"

text \<open>\<open>/feasibility[:\s]*(\d+)/i\<close> and \<open>/completeness[:\s]*(\d+)/i\<close>\<close>

definition feasibility_rx :: rx where
  "feasibility_rx = Seq (Str ''feasibility'') (Seq colon_space (Grp (Plus (Cls isDigit))))"

definition completeness_rx :: rx where
  "completeness_rx = Seq (Str ''completeness'') (Seq colon_space (Grp (Plus (Cls isDigit))))"

text \<open>\<open>/complexity[:\s]*(low|medium|high)/i\<close>\<close>

definition complexity_rx :: rx where
  "complexity_rx =
     Seq (Str ''complexity'') (Seq colon_space
       (Grp (Alt (Str ''low'') (Alt (Str ''medium'') (Str ''high'')))))"

text \<open>\<open>/blockers?.../i\<close>, \<open>/risks?.../i\<close>, \<open>/gaps?.../i\<close>, \<open>/improvements?.../i\<close>,
  \<open>/suggestions?.../i\<close>\<close>

definition blockers_rx :: rx where
  "blockers_rx = section_rx (Seq (Str ''blocker'') (Opt (Lit CHR ''s'')))"

definition risks_rx :: rx where
  "risks_rx = section_rx (Seq (Str ''risk'') (Opt (Lit CHR ''s'')))"

definition gaps_rx :: rx where
  "gaps_rx = section_rx (Seq (Str ''gap'') (Opt (Lit CHR ''s'')))"

definition improvements_rx :: rx where
  "improvements_rx = section_rx (Seq (Str ''improvement'') (Opt (Lit CHR ''s'')))"

definition suggestions_rx :: rx where
  "suggestions_rx = section_rx (Seq (Str ''suggestion'') (Opt (Lit CHR ''s'')))"

text \<open>\<open>/(?:missing\s+)?dependenc(?:y|ies).../i\<close>\<close>

definition deps_rx :: rx where
  "deps_rx =
     section_rx (Seq (Opt (Seq (Str ''missing'') (Plus (Cls isSpace))))
                (Seq (Str ''dependenc'') (Alt (Str ''y'') (Str ''ies''))))"

text \<open>\<open>/(?:best\s+practice\s+)?violations?.../i\<close>\<close>

definition violations_rx :: rx where
  "violations_rx =
     section_rx (Seq (Opt (Seq (Str ''best'') (Seq (Plus (Cls isSpace))
                           (Seq (Str ''practice'') (Plus (Cls isSpace))))))
                (Seq (Str ''violation'') (Opt (Lit CHR ''s''))))"

text \<open>\<open>/(?:changes?\s+applied|applied\s+changes?).../i\<close>\<close>

definition changes_rx :: rx where
  "changes_rx =
     section_rx (Alt (Seq (Str ''change'') (Seq (Opt (Lit CHR ''s''))
                        (Seq (Plus (Cls isSpace)) (Str ''applied''))))
                     (Seq (Str ''applied'') (Seq (Plus (Cls isSpace))
                        (Seq (Str ''change'') (Opt (Lit CHR ''s''))))))"

subsection \<open>\<open>extractListItems\<close> and \<open>parseCodexOutput\<close>\<close>

text \<open>\<open>/^[-*\d.]+\s*/\<close>\<close>

definition bullet_rx :: rx where
  "bullet_rx = Seq (Plus (Cls isBullet)) (Star (Cls isSpace))"

definition extractListItems :: "string \<Rightarrow> string list" where
  "extractListItems text =
     filter (\<lambda>line. length line > 0)
       (map (\<lambda>line. trim (rx_strip_prefix bullet_rx line)) (split_lines text))"

text \<open>
  \<open>Math.min(100, Math.max(0, parseInt(ds, 10)))\<close>. \<open>parseInt\<close> is exact up to \<open>2^53\<close>
  and at least \<open>2^53\<close> beyond (infinite for very long numerals), so the clamped value is
  that of the exact integer.
\<close>

definition clamp_score :: "string \<Rightarrow> int" where
  "clamp_score ds = min 100 (max 0 (parseInt10 ds))"

definition section_items :: "rx \<Rightarrow> string \<Rightarrow> string list \<Rightarrow> string list" where
  "section_items r output dflt =
     (case rx_search r output of None \<Rightarrow> dflt | Some block \<Rightarrow> extractListItems block)"

definition parseCodexOutput :: "string \<Rightarrow> ParsedResult" where
  "parseCodexOutput output =
    \<lparr> feasibility =
        \<lparr> score = (case rx_search feasibility_rx output of None \<Rightarrow> 70 | Some ds \<Rightarrow> clamp_score ds),
          blockers = section_items blockers_rx output [],
          risks = section_items risks_rx output [],
          dependencies_missing = section_items deps_rx output [] \<rparr>,
      codeReview =
        \<lparr> suggestions =
            (case rx_search suggestions_rx output of
               None \<Rightarrow> []
             | Some block \<Rightarrow>
                 map (\<lambda>item. \<lparr> sg_type = other, sg_file = None, sg_description = item,
                                sg_suggestion = item, sg_severity = info \<rparr>)
                     (extractListItems block)),
          best_practice_violations = section_items violations_rx output [],
          improvements = section_items improvements_rx output [] \<rparr>,
      implementationAnalysis =
        \<lparr> completeness =
            (case rx_search completeness_rx output of None \<Rightarrow> 70 | Some ds \<Rightarrow> clamp_score ds),
          gaps = section_items gaps_rx output [],
          estimated_complexity =
            (case rx_search complexity_rx output of None \<Rightarrow> ''medium'' | Some w \<Rightarrow> toLowerCase w) \<rparr>,
      changesApplied = section_items changes_rx output [] \<rparr>"

subsection \<open>\<open>isQuotaError\<close> and \<open>getDefaultParsedResult\<close>\<close>

definition quotaPatterns :: "string list" where
  "quotaPatterns =
     [''rate limit'', ''rate_limit'', ''quota exceeded'', ''quota_exceeded'',
      ''too many requests'', ''insufficient_quota'', ''exceeded your current quota'',
      ''rate limit reached'', ''billing'', ''429'']"

definition isQuotaError :: "string \<Rightarrow> bool" where
  "isQuotaError text =
     (let textLower = toLowerCase text
      in list_ex (\<lambda>pattern. str_includes textLower pattern) quotaPatterns)"

definition getDefaultParsedResult :: ParsedResult where
  "getDefaultParsedResult =
    \<lparr> feasibility =
        \<lparr> score = 50, blockers = [], risks = [''Unable to complete analysis''],
          dependencies_missing = [] \<rparr>,
      codeReview = \<lparr> suggestions = [], best_practice_violations = [], improvements = [] \<rparr>,
      implementationAnalysis =
        \<lparr> completeness = 50, gaps = [''Analysis incomplete''],
          estimated_complexity = ''medium'' \<rparr>,
      changesApplied = [] \<rparr>"

subsection \<open>\<open>spawnCodex\<close> and \<open>execute\<close>\<close>

text \<open>
  The child process is the environment. What the promise of \<open>spawnCodex\<close> resolves with
  depends on the first of its two events to arrive: \<open>close\<close>, with the exit code (\<open>null\<close>
  when a signal ended the process), the output collected on both streams and whether the
  timer had fired by then; or \<open>error\<close>, with whether the error code is \<open>ENOENT\<close> and the
  error message. The prompt, the working directory and the mode flags only reach the
  process.
\<close>

datatype ProcessEvent =
    Close bool "nat option" string string
  | SpawnError bool string

definition DEFAULT_TIMEOUT :: nat where
  "DEFAULT_TIMEOUT = 5 * 60 * 1000"

definition mode_of :: "bool \<Rightarrow> Mode" where
  "mode_of apply = (if apply then apply_mode else suggest)"

text \<open>A record with the fields of a parsed result and the remaining fields as given.\<close>

definition with_parsed ::
  "ParsedResult \<Rightarrow> bool \<Rightarrow> Mode \<Rightarrow> ExecutionPath \<Rightarrow> string \<Rightarrow> string \<Rightarrow> string option \<Rightarrow>
   bool option \<Rightarrow> CodexResult" where
  "with_parsed p ok md path out err msg quota =
    \<lparr> feasibility = feasibility p, codeReview = codeReview p,
      implementationAnalysis = implementationAnalysis p, changesApplied = changesApplied p,
      success = ok, mode = md, executionPath = path, rawOutput = out, rawError = err,
      error_msg = msg, quotaExhausted = quota \<rparr>"

text \<open>\<open>${code}\<close> in a template literal.\<close>

definition show_code :: "nat option \<Rightarrow> string" where
  "show_code code = (case code of None \<Rightarrow> ''null'' | Some n \<Rightarrow> show_nat n)"

definition spawnCodex :: "bool \<Rightarrow> nat \<Rightarrow> ProcessEvent \<Rightarrow> CodexResult" where
  "spawnCodex apply tmo event =
     (let md = mode_of apply in
      case event of
        Close timedOut code stdout stderr \<Rightarrow>
          if timedOut then
            with_parsed getDefaultParsedResult False md codex_cli stdout stderr
              (Some (''Codex CLI timed out after '' @ show_nat tmo @ ''ms'')) (Some False)
          else if isQuotaError stderr \<or> isQuotaError stdout then
            with_parsed getDefaultParsedResult False md codex_cli stdout stderr
              (Some ''Codex CLI Pro quota exhausted'') (Some True)
          else
            (let parsed = parseCodexOutput (if stdout \<noteq> [] then stdout else stderr) in
             with_parsed parsed (code = Some 0) md codex_cli stdout stderr
               (if code \<noteq> Some 0 then Some (''Codex CLI exited with code '' @ show_code code)
                else None)
               (Some False))
      | SpawnError enoent message \<Rightarrow>
          if enoent then
            with_parsed getDefaultParsedResult False md codex_cli []
              ''Codex CLI not found. Please install it with: npm install -g @openai/codex''
              (Some ''Codex CLI not installed'') (Some False)
          else
            with_parsed getDefaultParsedResult False md codex_cli [] message
              (Some message) (Some False))"

text \<open>\<open>CodexService.execute\<close>: the defaults of the options, then \<open>spawnCodex\<close>.\<close>

definition codex_execute :: "CodexExecutionOptions \<Rightarrow> ProcessEvent \<Rightarrow> CodexResult" where
  "codex_execute options event =
     spawnCodex (case applyChanges options of None \<Rightarrow> False | Some b \<Rightarrow> b)
                (case timeout options of None \<Rightarrow> DEFAULT_TIMEOUT | Some t \<Rightarrow> t)
                event"

text \<open>\<open>isInstalled\<close>: \<open>codex --version\<close> closed with exit code 0.\<close>

definition isInstalled :: "ProcessEvent \<Rightarrow> bool" where
  "isInstalled event =
     (case event of Close _ code _ _ \<Rightarrow> code = Some 0 | SpawnError _ _ \<Rightarrow> False)"

section \<open>The execution manager (\<open>services/execution-manager.ts\<close>)\<close>

record ExecutionManagerOptions =
  opt_openaiApiKey :: "string option"
  opt_openaiModel :: "string option"

text \<open>
  The fields of the class. \<open>openai\<close> says whether the client object exists (it is \<open>null\<close>
  otherwise); \<open>codexCliAvailable\<close> is \<open>null\<close> until \<open>initialize\<close> has run.
\<close>

record ExecutionManager =
  openai :: bool
  openaiApiKey :: "string option"
  openaiModel :: string
  codexCliAvailable :: "bool option"
  fallbackTriggered :: bool
  fallbackReason :: "string option"

text \<open>
  The calls that leave the process, in the order in which they are made: the installation
  probe, the Codex CLI run and the chat completion request.
\<close>

datatype Effect = ProbeInstalled | SpawnCodexCli | ChatCompletion

text \<open>
  What the awaited completion call does: it returns a response, with the content of the
  first choice when there is one, or it throws; \<open>Rejected\<close> carries \<open>errorMessage\<close>.
\<close>

datatype ApiOutcome = Completed "string option" | Rejected string

text \<open>The constructor; \<open>envKey\<close> is \<open>process.env.OPENAI_API_KEY\<close>.\<close>

definition new_ExecutionManager :: "ExecutionManagerOptions \<Rightarrow> string option \<Rightarrow> ExecutionManager" where
  "new_ExecutionManager options envKey =
     (let key = (case opt_openaiApiKey options of None \<Rightarrow> envKey | Some k \<Rightarrow> Some k) in
      \<lparr> openai = (case key of None \<Rightarrow> False | Some k \<Rightarrow> k \<noteq> []),
        openaiApiKey = key,
        openaiModel = (case opt_openaiModel options of None \<Rightarrow> ''gpt-4o'' | Some m \<Rightarrow> m),
        codexCliAvailable = None,
        fallbackTriggered = False,
        fallbackReason = None \<rparr>)"

text \<open>
  \<open>initialize\<close>: probes, stores the answer, and throws when no path is left. A thrown
  error is \<open>Inl\<close> with its message; the assignment made before it stays.
\<close>

definition initialize ::
  "ProcessEvent \<Rightarrow> ExecutionManager \<times> Effect list \<Rightarrow> (string + unit) \<times> ExecutionManager \<times> Effect list" where
  "initialize probe st =
     (case st of (this, trace) \<Rightarrow>
        (let this' = this\<lparr>codexCliAvailable := Some (isInstalled probe)\<rparr>;
             trace' = trace @ [ProbeInstalled]
         in if codexCliAvailable this' \<noteq> Some True \<and> \<not> openai this'
            then (Inl (''No execution path available. Either install Codex CLI (npm install -g @openai/codex) '' @
                       ''or set OPENAI_API_KEY environment variable.''), this', trace')
            else (Inr (), this', trace')))"

text \<open>The manager's own \<open>getDefaultParsedResult\<close>.\<close>

definition em_getDefaultParsedResult :: ParsedResult where
  "em_getDefaultParsedResult =
    \<lparr> feasibility =
        \<lparr> score = 50, blockers = [], risks = [''Unable to complete analysis''],
          dependencies_missing = [] \<rparr>,
      codeReview = \<lparr> suggestions = [], best_practice_violations = [], improvements = [] \<rparr>,
      implementationAnalysis =
        \<lparr> completeness = 50, gaps = [''Analysis incomplete''],
          estimated_complexity = ''medium'' \<rparr>,
      changesApplied = [] \<rparr>"

text \<open>
  \<open>executeViaOpenAI\<close>. Without a client it returns at once; otherwise it makes the one
  completion request and builds the result from what the request did.
\<close>

definition executeViaOpenAI ::
  "ExecutionManager \<Rightarrow> CodexExecutionOptions \<Rightarrow> ApiOutcome \<Rightarrow> Effect list \<Rightarrow> CodexResult \<times> Effect list" where
  "executeViaOpenAI this options api trace =
     (let apply = (case applyChanges options of None \<Rightarrow> False | Some b \<Rightarrow> b);
          tmo = (case timeout options of None \<Rightarrow> 5 * 60 * 1000 | Some t \<Rightarrow> t);
          md = mode_of apply
      in if \<not> openai this then
           (with_parsed em_getDefaultParsedResult False md openai_api []
              ''OpenAI API not configured''
              (Some ''OpenAI API not configured - set OPENAI_API_KEY environment variable'')
              (Some False),
            trace)
         else
           (case api of
              Completed choice \<Rightarrow>
                (let content = (case choice of None \<Rightarrow> [] | Some c \<Rightarrow> c);
                     parsed = parseCodexOutput content
                 in \<lparr> feasibility = feasibility parsed, codeReview = codeReview parsed,
                      implementationAnalysis = implementationAnalysis parsed,
                      changesApplied = [],
                      success = True, mode = md, executionPath = openai_api,
                      rawOutput = content, rawError = [], error_msg = None,
                      quotaExhausted = Some False \<rparr>)
            | Rejected errorMessage \<Rightarrow>
                if str_includes errorMessage ''aborted'' \<or> str_includes errorMessage ''timeout'' then
                  with_parsed em_getDefaultParsedResult False md openai_api []
                    ''Request timed out''
                    (Some (''OpenAI API request timed out after '' @ show_nat tmo @ ''ms''))
                    (Some False)
                else
                  (let isQuota = (str_includes (toLowerCase errorMessage) ''rate limit'' \<or>
                                  str_includes (toLowerCase errorMessage) ''quota'' \<or>
                                  str_includes errorMessage ''429'')
                   in with_parsed em_getDefaultParsedResult False md openai_api []
                        errorMessage (Some errorMessage) (Some isQuota)),
            trace @ [ChatCompletion]))"

text \<open>
  \<open>execute\<close>. \<open>cli\<close> is what the Codex CLI process does if it is run during this call,
  \<open>api\<close> what the completion request does if it is made.
\<close>

definition execute ::
  "ProcessEvent \<Rightarrow> ApiOutcome \<Rightarrow> CodexExecutionOptions \<Rightarrow> ExecutionManager \<times> Effect list \<Rightarrow>
   (string + CodexResult) \<times> ExecutionManager \<times> Effect list" where
  "execute cli api options st =
     (case st of (this, trace) \<Rightarrow>
       (let previousFallback = fallbackTriggered this in
        if codexCliAvailable this = Some True then
          (let result = codex_execute options cli;
               trace1 = trace @ [SpawnCodexCli]
           in if quotaExhausted result = Some True \<and> openai this then
                (let this1 = this\<lparr>fallbackTriggered := True,
                                    fallbackReason := Some ''Codex CLI Pro quota exhausted''\<rparr>
                 in case executeViaOpenAI this1 options api trace1 of
                      (r, trace2) \<Rightarrow> (Inr r, this1, trace2))
              else (Inr result, this, trace1))
        else if openai this then
          (let this1 = (if \<not> previousFallback
                        then this\<lparr>fallbackTriggered := True,
                                   fallbackReason := Some ''Codex CLI not installed''\<rparr>
                        else this)
           in case executeViaOpenAI this1 options api trace of
                (r, trace2) \<Rightarrow> (Inr r, this1, trace2))
        else (Inl ''No execution path available'', this, trace)))"

record ExecutionManagerStatus =
  st_codexCliAvailable :: bool
  st_openaiApiKeySet :: bool
  st_currentPath :: "ExecutionPath option"
  st_fallbackTriggered :: bool
  st_fallbackReason :: "string option"

definition getStatus :: "ExecutionManager \<Rightarrow> ExecutionManagerStatus" where
  "getStatus this =
    \<lparr> st_codexCliAvailable = (case codexCliAvailable this of None \<Rightarrow> False | Some b \<Rightarrow> b),
      st_openaiApiKeySet = (case openaiApiKey this of None \<Rightarrow> False | Some k \<Rightarrow> k \<noteq> []),
      st_currentPath =
        (if codexCliAvailable this = Some True then Some codex_cli
         else if openai this then Some openai_api else None),
      st_fallbackTriggered = fallbackTriggered this,
      st_fallbackReason = fallbackReason this \<rparr>"

definition hasFallbackAvailable :: "ExecutionManager \<Rightarrow> bool" where
  "hasFallbackAvailable this = openai this"

definition resetFallbackState :: "ExecutionManager \<Rightarrow> ExecutionManager" where
  "resetFallbackState this = this\<lparr>fallbackTriggered := False, fallbackReason := None\<rparr>"

text \<open>
  The singleton factory. The module variable \<open>instance\<close> holds the manager or \<open>null\<close>; it is
  assigned before \<open>initialize\<close> is awaited, so it stays set when \<open>initialize\<close> throws.
\<close>

definition getExecutionManager ::
  "ExecutionManagerOptions \<Rightarrow> string option \<Rightarrow> ProcessEvent \<Rightarrow> ExecutionManager option \<times> Effect list \<Rightarrow>
   (string + ExecutionManager) \<times> ExecutionManager option \<times> Effect list" where
  "getExecutionManager options envKey probe st =
     (case st of (inst, trace) \<Rightarrow>
        (case inst of
           None \<Rightarrow>
             (case initialize probe (new_ExecutionManager options envKey, trace) of
                (Inl e, this, trace') \<Rightarrow> (Inl e, Some this, trace')
              | (Inr _, this, trace') \<Rightarrow> (Inr this, Some this, trace'))
         | Some this \<Rightarrow> (Inr this, Some this, trace)))"

definition resetExecutionManager ::
  "ExecutionManager option \<times> Effect list \<Rightarrow> ExecutionManager option \<times> Effect list" where
  "resetExecutionManager st = (None, snd st)"

text \<open>Runs of calls, each with its own environment.\<close>

fun execute_all ::
  "(ProcessEvent \<times> ApiOutcome \<times> CodexExecutionOptions) list \<Rightarrow> ExecutionManager \<times> Effect list \<Rightarrow>
   ExecutionManager \<times> Effect list" where
  "execute_all [] st = st"
| "execute_all ((cli, api, options) # calls) st = execute_all calls (snd (execute cli api options st))"

fun getExecutionManager_all ::
  "(ExecutionManagerOptions \<times> string option \<times> ProcessEvent) list \<Rightarrow>
   ExecutionManager option \<times> Effect list \<Rightarrow> ExecutionManager option \<times> Effect list" where
  "getExecutionManager_all [] st = st"
| "getExecutionManager_all ((options, envKey, probe) # calls) st =
     getExecutionManager_all calls (snd (getExecutionManager options envKey probe st))"

fun initialize_all ::
  "ProcessEvent list \<Rightarrow> ExecutionManager \<times> Effect list \<Rightarrow> ExecutionManager \<times> Effect list" where
  "initialize_all [] st = st"
| "initialize_all (probe # probes) st = initialize_all probes (snd (initialize probe st))"

section \<open>The change applier (\<open>services/change-applier.ts\<close>)\<close>

datatype ChangeType = file_create | file_modify | file_delete | dependency_add | config_change

datatype Impact = low | medium | high

record ProposedChange =
  change_type :: ChangeType
  path :: string
  description :: string
  diff :: "string option"
  impact :: Impact

text \<open>The string a template literal prints for \<open>change.type\<close>.\<close>

fun type_name :: "ChangeType \<Rightarrow> string" where
  "type_name file_create = ''file_create''"
| "type_name file_modify = ''file_modify''"
| "type_name file_delete = ''file_delete''"
| "type_name dependency_add = ''dependency_add''"
| "type_name config_change = ''config_change''"

definition assessImpact :: "ChangeType \<Rightarrow> string \<Rightarrow> Impact" where
  "assessImpact ty p =
     (let pathLower = toLowerCase p in
      if str_includes pathLower ''package.json'' \<or>
         str_includes pathLower ''tsconfig'' \<or>
         str_includes pathLower ''.env'' \<or>
         str_includes pathLower ''config'' \<or>
         str_includes pathLower ''main'' \<or>
         str_includes pathLower ''index'' \<or>
         ty = file_delete
      then high
      else if endsWith pathLower ''.ts'' \<or>
              endsWith pathLower ''.tsx'' \<or>
              endsWith pathLower ''.js'' \<or>
              endsWith pathLower ''.jsx'' \<or>
              endsWith pathLower ''.py'' \<or>
              ty = dependency_add
      then medium
      else low)"

text \<open>\<open>changes.filter(c => c.diff)\<close> keeps a change whose diff is a non-empty string.\<close>

definition has_diff :: "ProposedChange \<Rightarrow> bool" where
  "has_diff c = (case diff c of None \<Rightarrow> False | Some d \<Rightarrow> d \<noteq> [])"

definition fence :: string where
  "fence = [CHR 0x60, CHR 0x60, CHR 0x60]"

definition generateConfirmationSummary :: "ProposedChange list \<Rightarrow> string" where
  "generateConfirmationSummary changes =
     (if length changes = 0 then ''No changes detected.''
      else
        (let highImpact = filter (\<lambda>c. impact c = high) changes;
             mediumImpact = filter (\<lambda>c. impact c = medium) changes;
             lowImpact = filter (\<lambda>c. impact c = low) changes;
             changesWithDiffs = filter has_diff changes;
             lines0 = [''## Proposed Changes'', [],
                       ''Total: '' @ show_nat (length changes) @ '' change(s)'', []];
             lines1 = lines0 @
               (if length highImpact > 0
                then [''### High Impact (requires careful review)''] @
                     map (\<lambda>c. ''- **'' @ type_name (change_type c) @ ''**: '' @ description c) highImpact @
                     [[]]
                else []);
             lines2 = lines1 @
               (if length mediumImpact > 0
                then [''### Medium Impact''] @
                     map (\<lambda>c. ''- '' @ type_name (change_type c) @ '': '' @ description c) mediumImpact @
                     [[]]
                else []);
             lines3 = lines2 @
               (if length lowImpact > 0
                then [''### Low Impact''] @
                     map (\<lambda>c. ''- '' @ type_name (change_type c) @ '': '' @ description c) lowImpact @
                     [[]]
                else []);
             lines4 = lines3 @
               (if length changesWithDiffs > 0
                then [''### Diffs''] @
                     concat (map (\<lambda>c. [NL # ''**'' @ path c @ ''**:'', fence @ ''diff'',
                                         (case diff c of None \<Rightarrow> [] | Some d \<Rightarrow> d),
                                         fence])
                                 changesWithDiffs)
                else [])
         in join_lines lines4))"

record ConfirmationRequest =
  message :: string
  requiresApproval :: bool
  highImpactCount :: nat

text \<open>The two sentences the template chooses between, and the text around them.\<close>

definition warning_sentence :: "nat \<Rightarrow> string" where
  "warning_sentence n =
     ''WARNING: This includes '' @ show_nat n @
     '' high-impact change(s) that may significantly affect the project.''"

definition safe_sentence :: string where
  "safe_sentence = ''These changes appear to be relatively safe.''"

definition confirmation_head :: string where
  "confirmation_head = [NL, NL] @ ''---'' @ [NL, NL] @ ''**Confirmation Required**'' @ [NL, NL]"

definition confirmation_foot :: string where
  "confirmation_foot =
     [NL, NL] @ ''To apply these changes, re-run the validation with '' @
     [CHR 0x60] @ ''apply_changes: true'' @ [CHR 0x60] @
     '' and confirm you have reviewed the changes above.''"

definition createConfirmationRequest :: "ProposedChange list \<Rightarrow> ConfirmationRequest" where
  "createConfirmationRequest changes =
     (let count = length (filter (\<lambda>c. impact c = high) changes);
          summary = generateConfirmationSummary changes;
          msg = summary @ confirmation_head @
                (if count > 0 then warning_sentence count else safe_sentence) @
                confirmation_foot
      in \<lparr> message = msg, requiresApproval = (length changes > 0), highImpactCount = count \<rparr>)"

text \<open>The four fields a result shares with a parsed result.\<close>

definition parsed_of :: "CodexResult \<Rightarrow> ParsedResult" where
  "parsed_of r =
    \<lparr> feasibility = feasibility r, codeReview = codeReview r,
      implementationAnalysis = implementationAnalysis r, changesApplied = changesApplied r \<rparr>"

section \<open>The service object and the world around it\<close>

text \<open>
  What a method of \<open>CodexService\<close> can read or change besides its arguments: the object it
  is called on, whose one field is the logger, and the world of the process, here the lines
  written to the console and the environment variables. A logger is any function of the
  message and the level that may change the world.
\<close>

datatype LogLevel = level_info | level_warn | level_error | level_debug

datatype ConsoleStream = stream_log | stream_warn | stream_error

record World =
  console :: "(ConsoleStream \<times> string) list"
  process_env :: "string \<Rightarrow> string option"

record CodexService =
  logger :: "string \<Rightarrow> LogLevel \<Rightarrow> World \<Rightarrow> World"

text \<open>\<open>level.toUpperCase()\<close>\<close>

fun level_upper :: "LogLevel \<Rightarrow> string" where
  "level_upper level_info = ''INFO''"
| "level_upper level_warn = ''WARN''"
| "level_upper level_error = ''ERROR''"
| "level_upper level_debug = ''DEBUG''"

text \<open>The logger the constructor installs when the options give none.\<close>

definition default_logger :: "string \<Rightarrow> LogLevel \<Rightarrow> World \<Rightarrow> World" where
  "default_logger msg level w =
     (let prefix = ''[CodexService]['' @ level_upper level @ '']''
      in if level = level_error then w\<lparr>console := console w @ [(stream_error, prefix @ '' '' @ msg)]\<rparr>
         else if level = level_warn then w\<lparr>console := console w @ [(stream_warn, prefix @ '' '' @ msg)]\<rparr>
         else if level = level_debug then w
         else w\<lparr>console := console w @ [(stream_log, prefix @ '' '' @ msg)]\<rparr>)"

definition new_CodexService :: "(string \<Rightarrow> LogLevel \<Rightarrow> World \<Rightarrow> World) option \<Rightarrow> CodexService" where
  "new_CodexService options_logger =
     \<lparr> logger = (case options_logger of None \<Rightarrow> default_logger | Some l \<Rightarrow> l) \<rparr>"

text \<open>
  The methods of the parser again, statement by statement, with the object and the world
  passed along: each takes \<open>this\<close> and the world before the call and returns its value with
  the world after it. \<open>extractListItems\<close> and \<open>parseCodexOutput\<close> call no logger and read no
  field and no variable outside their bodies; their regular expressions are literals
  evaluated at each call, without the \<open>g\<close> flag, so no \<open>lastIndex\<close> is carried over.
\<close>

definition extractListItems_st :: "CodexService \<Rightarrow> string \<Rightarrow> World \<Rightarrow> string list \<times> World" where
  "extractListItems_st this text w =
     (let lines = split_lines text
      in (filter (\<lambda>line. length line > 0)
            (map (\<lambda>line. trim (rx_strip_prefix bullet_rx line)) lines), w))"

text \<open>One \<open>if (section) { field = this.extractListItems(section[1]) }\<close> of the parser.\<close>

definition section_items_st ::
  "CodexService \<Rightarrow> rx \<Rightarrow> string \<Rightarrow> string list \<Rightarrow> World \<Rightarrow> string list \<times> World" where
  "section_items_st this r output dflt w =
     (case rx_search r output of
        None \<Rightarrow> (dflt, w)
      | Some block \<Rightarrow> extractListItems_st this block w)"

definition parseCodexOutput_st :: "CodexService \<Rightarrow> string \<Rightarrow> World \<Rightarrow> ParsedResult \<times> World" where
  "parseCodexOutput_st this output w =
     (let score0 = (case rx_search feasibility_rx output of None \<Rightarrow> 70 | Some ds \<Rightarrow> clamp_score ds);
          completeness0 =
            (case rx_search completeness_rx output of None \<Rightarrow> 70 | Some ds \<Rightarrow> clamp_score ds);
          complexity0 =
            (case rx_search complexity_rx output of None \<Rightarrow> ''medium'' | Some c \<Rightarrow> toLowerCase c)
      in case section_items_st this blockers_rx output [] w of (blockers0, w1) \<Rightarrow>
         case section_items_st this risks_rx output [] w1 of (risks0, w2) \<Rightarrow>
         case section_items_st this deps_rx output [] w2 of (deps0, w3) \<Rightarrow>
         case section_items_st this gaps_rx output [] w3 of (gaps0, w4) \<Rightarrow>
         case section_items_st this improvements_rx output [] w4 of (improvements0, w5) \<Rightarrow>
         case section_items_st this violations_rx output [] w5 of (violations0, w6) \<Rightarrow>
         case section_items_st this suggestions_rx output [] w6 of (items, w7) \<Rightarrow>
         case section_items_st this changes_rx output [] w7 of (changes0, w8) \<Rightarrow>
           (\<lparr> feasibility =
                \<lparr> score = score0, blockers = blockers0, risks = risks0,
                  dependencies_missing = deps0 \<rparr>,
              codeReview =
                \<lparr> suggestions =
                    map (\<lambda>item. \<lparr> sg_type = other, sg_file = None, sg_description = item,
                                   sg_suggestion = item, sg_severity = info \<rparr>) items,
                  best_practice_violations = violations0, improvements = improvements0 \<rparr>,
              implementationAnalysis =
                \<lparr> completeness = completeness0, gaps = gaps0,
                  estimated_complexity = complexity0 \<rparr>,
              changesApplied = changes0 \<rparr>,
            w8))"

text \<open>
  The logger calls of \<open>spawnCodex\<close>, for comparison: the debug line before the process is
  spawned, the warning of the close handler on a quota phrase, the error of the error
  handler when the executable is missing.
\<close>

definition spawnCodex_log :: "CodexService \<Rightarrow> ProcessEvent \<Rightarrow> World \<Rightarrow> World" where
  "spawnCodex_log this event w =
     (let w0 = logger this ''Spawning: codex exec --json -C ... [prompt]'' level_debug w
      in case event of
           Close timedOut code stdout stderr \<Rightarrow>
             if timedOut then w0
             else if isQuotaError stderr \<or> isQuotaError stdout
             then logger this ''Codex CLI quota exhausted'' level_warn w0
             else w0
         | SpawnError enoent msg \<Rightarrow>
             if enoent then logger this ''Codex CLI not found'' level_error w0 else w0)"

section \<open>Example inputs\<close>

text \<open>Concrete inputs at which the theorems below are instantiated.\<close>

definition ex_options :: CodexExecutionOptions where
  "ex_options =
    \<lparr> planContent = ''Add a login page'', projectPath = ''/repo'', applyChanges = Some True,
      timeout = None, additionalInstructions = None \<rparr>"

definition ex_probe_ok :: ProcessEvent where
  "ex_probe_ok = Close False (Some 0) ''codex-cli 0.1'' []"

definition ex_probe_missing :: ProcessEvent where
  "ex_probe_missing = SpawnError True ''spawn codex ENOENT''"

definition ex_manager_options :: ExecutionManagerOptions where
  "ex_manager_options = \<lparr> opt_openaiApiKey = None, opt_openaiModel = None \<rparr>"

text \<open>A manager with both paths: constructed with a key, initialized with the CLI installed.\<close>

definition ex_manager :: ExecutionManager where
  "ex_manager =
     fst (snd (initialize ex_probe_ok (new_ExecutionManager ex_manager_options (Some ''sk-test''), [])))"

definition ex_cli_quota :: ProcessEvent where
  "ex_cli_quota = Close False (Some 1) [] ''Error: 429 Too Many Requests''"

definition ex_cli_ok :: ProcessEvent where
  "ex_cli_ok = Close False (Some 0) ''Feasibility: 85'' []"


definition ex_api_failed :: ApiOutcome where
  "ex_api_failed = Rejected ''connect ECONNREFUSED''"

definition ex_api_ok :: ApiOutcome where
  "ex_api_ok = Completed (Some (''Feasibility: 90'' @ [NL] @ ''Changes applied:'' @ [NL] @ ''- src/a.ts''))"

definition ex_cli_partial :: ProcessEvent where
  "ex_cli_partial = Close False (Some 1) ''Feasibility: 85'' []"

text \<open>
  The change that \<open>update: WARNING: This includes 1 high-impact change(s) ...\<close> in a backend's
  output is read as: the rest of the line is the path, the description is the path's last
  segment after \<open>Modify existing file: \<close>.
\<close>

definition ex_change_warning :: ProposedChange where
  "ex_change_warning =
    \<lparr> change_type = file_modify,
      path = warning_sentence 1,
      description = ''Modify existing file: '' @ warning_sentence 1,
      diff = None,
      impact = assessImpact file_modify (warning_sentence 1) \<rparr>"

definition ex_change_delete :: ProposedChange where
  "ex_change_delete =
    \<lparr> change_type = file_delete, path = ''legacy/old.ts'', description = ''Delete file: old.ts'',
      diff = None, impact = assessImpact file_delete ''legacy/old.ts'' \<rparr>"

definition ex_change_doc :: ProposedChange where
  "ex_change_doc =
    \<lparr> change_type = file_modify, path = ''docs/guide.md'',
      description = ''Modify existing file: guide.md'',
      diff = None, impact = assessImpact file_modify ''docs/guide.md'' \<rparr>"

text \<open>An empty world, a service with the default logger and one with a logger of its own.\<close>

definition ex_world :: World where
  "ex_world = \<lparr> console = [], process_env = (\<lambda>name. None) \<rparr>"

definition ex_service :: CodexService where
  "ex_service = new_CodexService None"

definition ex_service_loud :: CodexService where
  "ex_service_loud =
     new_CodexService (Some (\<lambda>msg level w. w\<lparr>console := console w @ [(stream_log, msg)]\<rparr>))"

section \<open>Facts about the model\<close>

subsection \<open>Evaluated examples\<close>

lemma ex_manager_eval:
  "ex_manager =
    \<lparr> openai = True, openaiApiKey = Some ''sk-test'', openaiModel = ''gpt-4o'',
      codexCliAvailable = Some True, fallbackTriggered = False, fallbackReason = None \<rparr>"
  by (simp add: ex_manager_def initialize_def new_ExecutionManager_def ex_manager_options_def
        ex_probe_ok_def isInstalled_def Let_def)

lemma isQuotaError_429: "isQuotaError ''Error: 429 Too Many Requests''"
  by code_simp

lemma isQuotaError_feasibility: "\<not> isQuotaError ''Feasibility: 85''"
  by code_simp

lemma isQuotaError_empty: "\<not> isQuotaError []"
  by code_simp

lemma parse_feasibility_85:
  "parseCodexOutput ''Feasibility: 85'' =
    \<lparr> feasibility = \<lparr> score = 85, blockers = [], risks = [], dependencies_missing = [] \<rparr>,
      codeReview = \<lparr> suggestions = [], best_practice_violations = [], improvements = [] \<rparr>,
      implementationAnalysis = \<lparr> completeness = 70, gaps = [], estimated_complexity = ''medium'' \<rparr>,
      changesApplied = [] \<rparr>"
  by code_simp

lemma parse_empty:
  "parseCodexOutput [] =
    \<lparr> feasibility = \<lparr> score = 70, blockers = [], risks = [], dependencies_missing = [] \<rparr>,
      codeReview = \<lparr> suggestions = [], best_practice_violations = [], improvements = [] \<rparr>,
      implementationAnalysis = \<lparr> completeness = 70, gaps = [], estimated_complexity = ''medium'' \<rparr>,
      changesApplied = [] \<rparr>"
  by code_simp

lemma parse_changes_applied:
  "changesApplied (parseCodexOutput (''Feasibility: 90'' @ [NL] @ ''Changes applied:'' @ [NL] @ ''- src/a.ts''))
     = [''src/a.ts'']"
  by code_simp

subsection \<open>The two backends\<close>

lemma executeViaOpenAI_trace:
  "snd (executeViaOpenAI this options api trace) =
     (if openai this then trace @ [ChatCompletion] else trace)"
  by (simp add: executeViaOpenAI_def Let_def split: ApiOutcome.splits)

lemma executeViaOpenAI_changes:
  "changesApplied (fst (executeViaOpenAI this options api trace)) = []"
  by (simp add: executeViaOpenAI_def Let_def with_parsed_def em_getDefaultParsedResult_def
        split: ApiOutcome.splits)

lemma executeViaOpenAI_path:
  "executionPath (fst (executeViaOpenAI this options api trace)) = openai_api"
  by (simp add: executeViaOpenAI_def Let_def with_parsed_def split: ApiOutcome.splits)

lemma spawnCodex_path: "executionPath (spawnCodex a t ev) = codex_cli"
  by (simp add: spawnCodex_def Let_def with_parsed_def split: ProcessEvent.splits)

lemma codex_execute_path: "executionPath (codex_execute options ev) = codex_cli"
  by (simp add: codex_execute_def spawnCodex_path)

lemma codex_execute_quota_example:
  "quotaExhausted (codex_execute ex_options ex_cli_quota) = Some True"
  by (simp add: codex_execute_def spawnCodex_def ex_cli_quota_def with_parsed_def Let_def
        isQuotaError_429)

lemma codex_execute_ok_example:
  "quotaExhausted (codex_execute ex_options ex_cli_ok) = Some False \<and>
   success (codex_execute ex_options ex_cli_ok)"
  by (simp add: codex_execute_def spawnCodex_def ex_cli_ok_def with_parsed_def Let_def
        isQuotaError_feasibility isQuotaError_empty)

text \<open>\<open>execute\<close>, branch by branch, with the trace of each branch written out.\<close>

lemma execute_unfold:
  "execute cli api options (this, trace) =
     (if codexCliAvailable this = Some True then
        if quotaExhausted (codex_execute options cli) = Some True \<and> openai this then
          (Inr (fst (executeViaOpenAI
                  (this\<lparr>fallbackTriggered := True,
                        fallbackReason := Some ''Codex CLI Pro quota exhausted''\<rparr>)
                  options api (trace @ [SpawnCodexCli]))),
           this\<lparr>fallbackTriggered := True, fallbackReason := Some ''Codex CLI Pro quota exhausted''\<rparr>,
           trace @ [SpawnCodexCli, ChatCompletion])
        else (Inr (codex_execute options cli), this, trace @ [SpawnCodexCli])
      else if openai this then
        if fallbackTriggered this then
          (Inr (fst (executeViaOpenAI this options api trace)), this, trace @ [ChatCompletion])
        else
          (Inr (fst (executeViaOpenAI
                  (this\<lparr>fallbackTriggered := True, fallbackReason := Some ''Codex CLI not installed''\<rparr>)
                  options api trace)),
           this\<lparr>fallbackTriggered := True, fallbackReason := Some ''Codex CLI not installed''\<rparr>,
           trace @ [ChatCompletion])
      else (Inl ''No execution path available'', this, trace))"
  by (simp add: execute_def Let_def split_def executeViaOpenAI_trace)

lemma execute_keeps_flag:
  "fallbackTriggered this \<Longrightarrow>
   fallbackTriggered (fst (snd (execute cli api options (this, trace))))"
  unfolding execute_unfold by simp

lemma execute_all_keeps_flag:
  "fallbackTriggered (fst st) \<Longrightarrow> fallbackTriggered (fst (execute_all calls st))"
proof (induction calls arbitrary: st)
  case Nil
  then show ?case by simp
next
  case (Cons c calls)
  obtain cli api options where c: "c = (cli, api, options)" by (cases c)
  obtain this trace where st: "st = (this, trace)" by (cases st)
  have "fallbackTriggered (fst (snd (execute cli api options st)))"
    using Cons.prems execute_keeps_flag st by simp
  then show ?case using Cons.IH c by simp
qed

section \<open>The execution path orchestrator\<close>

text \<open>
  C3. One call of \<open>execute\<close> makes at most one failover hop. The calls it adds to the trace
  are none, the CLI run alone, the CLI run followed by one completion request, or one
  completion request alone: the CLI is never run twice and never after the request. With
  the CLI available, a quota-exhausted CLI result and a configured client give exactly the
  CLI run and then one request, and the request's result is returned whether it succeeded or
  not; any other CLI result is returned as it is, with no request made and the manager
  unchanged.
\<close>

theorem execute_single_hop:
  assumes "execute cli api options (this, trace) = (res, this', trace')"
  shows "(trace' = trace \<or> trace' = trace @ [SpawnCodexCli] \<or>
          trace' = trace @ [SpawnCodexCli, ChatCompletion] \<or> trace' = trace @ [ChatCompletion])
       \<and> (codexCliAvailable this = Some True \<longrightarrow>
            quotaExhausted (codex_execute options cli) = Some True \<longrightarrow> openai this \<longrightarrow>
              trace' = trace @ [SpawnCodexCli, ChatCompletion] \<and>
              res = Inr (fst (executeViaOpenAI this' options api (trace @ [SpawnCodexCli]))))
       \<and> (codexCliAvailable this = Some True \<longrightarrow>
            \<not> (quotaExhausted (codex_execute options cli) = Some True \<and> openai this) \<longrightarrow>
              trace' = trace @ [SpawnCodexCli] \<and> res = Inr (codex_execute options cli) \<and>
              this' = this)"
  using assms unfolding execute_unfold by (auto split: if_splits)

theorem execute_single_hop_witness:
  "codexCliAvailable ex_manager = Some True \<and>
   quotaExhausted (codex_execute ex_options ex_cli_quota) = Some True \<and>
   openai ex_manager \<and>
   snd (snd (execute ex_cli_quota ex_api_failed ex_options (ex_manager, []))) =
     [SpawnCodexCli, ChatCompletion] \<and>
   fst (execute ex_cli_quota ex_api_failed ex_options (ex_manager, [])) =
     Inr (fst (executeViaOpenAI
                 (fst (snd (execute ex_cli_quota ex_api_failed ex_options (ex_manager, []))))
                 ex_options ex_api_failed [SpawnCodexCli])) \<and>
   \<not> (quotaExhausted (codex_execute ex_options ex_cli_ok) = Some True \<and> openai ex_manager) \<and>
   execute ex_cli_ok ex_api_failed ex_options (ex_manager, []) =
     (Inr (codex_execute ex_options ex_cli_ok), ex_manager, [SpawnCodexCli])"
  using execute_single_hop [of ex_cli_quota ex_api_failed ex_options ex_manager "[]"
          "fst (execute ex_cli_quota ex_api_failed ex_options (ex_manager, []))"
          "fst (snd (execute ex_cli_quota ex_api_failed ex_options (ex_manager, [])))"
          "snd (snd (execute ex_cli_quota ex_api_failed ex_options (ex_manager, [])))"]
        execute_single_hop [of ex_cli_ok ex_api_failed ex_options ex_manager "[]"
          "fst (execute ex_cli_ok ex_api_failed ex_options (ex_manager, []))"
          "fst (snd (execute ex_cli_ok ex_api_failed ex_options (ex_manager, [])))"
          "snd (snd (execute ex_cli_ok ex_api_failed ex_options (ex_manager, [])))"]
        codex_execute_quota_example codex_execute_ok_example
  by (simp add: ex_manager_eval prod_eq_iff)

text \<open>
  C4. The fallback flag is sticky. A quota-triggered failover sets \<open>fallbackTriggered\<close>;
  once it is set, it is still set after any further run of \<open>execute\<close> calls, whatever the
  backends do in them; only \<open>resetFallbackState\<close> clears it.
\<close>

theorem fallback_sticky:
  "(codexCliAvailable this = Some True \<and>
    quotaExhausted (codex_execute options cli) = Some True \<and> openai this \<longrightarrow>
      fallbackTriggered (fst (snd (execute cli api options (this, trace)))))
   \<and> (fallbackTriggered this \<longrightarrow> fallbackTriggered (fst (execute_all calls (this, trace))))
   \<and> \<not> fallbackTriggered (resetFallbackState this)"
proof -
  have "fallbackTriggered this \<Longrightarrow> fallbackTriggered (fst (execute_all calls (this, trace)))"
    using execute_all_keeps_flag [of "(this, trace)" calls] by simp
  then show ?thesis
    unfolding execute_unfold by (simp add: resetFallbackState_def)
qed

theorem fallback_sticky_witness:
  "codexCliAvailable ex_manager = Some True \<and>
   quotaExhausted (codex_execute ex_options ex_cli_quota) = Some True \<and>
   openai ex_manager \<and>
   \<not> fallbackTriggered ex_manager \<and>
   fallbackTriggered (fst (snd (execute ex_cli_quota ex_api_ok ex_options (ex_manager, [])))) \<and>
   success (codex_execute ex_options ex_cli_ok) \<and>
   fallbackTriggered
     (fst (execute_all [(ex_cli_ok, ex_api_ok, ex_options)]
        (snd (execute ex_cli_quota ex_api_ok ex_options (ex_manager, []))))) \<and>
   \<not> fallbackTriggered
     (resetFallbackState (fst (snd (execute ex_cli_quota ex_api_ok ex_options (ex_manager, [])))))"
  using fallback_sticky [where this = ex_manager and options = ex_options and cli = ex_cli_quota
          and api = ex_api_ok and trace = "[]" and calls = "[]"]
        fallback_sticky [where this = "fst (snd (execute ex_cli_quota ex_api_ok ex_options (ex_manager, [])))"
          and options = ex_options and cli = ex_cli_quota and api = ex_api_ok
          and trace = "snd (snd (execute ex_cli_quota ex_api_ok ex_options (ex_manager, [])))"
          and calls = "[(ex_cli_ok, ex_api_ok, ex_options)]"]
        codex_execute_quota_example codex_execute_ok_example
  by (simp add: ex_manager_eval)

text \<open>
  C10. A result of the OpenAI path reports no applied change: \<open>executeViaOpenAI\<close> returns an
  empty \<open>changesApplied\<close> on every branch, and so does \<open>execute\<close> whenever its result comes
  from that path, also when \<open>applyChanges\<close> is set and the response lists applied changes.
\<close>

theorem openai_path_applies_nothing:
  "changesApplied (fst (executeViaOpenAI this options api trace)) = []
   \<and> (execute cli api options (this, trace) = (Inr res, this', trace') \<longrightarrow>
        executionPath res = openai_api \<longrightarrow> changesApplied res = [])"
proof -
  have "changesApplied res = []"
    if "execute cli api options (this, trace) = (Inr res, this', trace')"
      and "executionPath res = openai_api"
    using that unfolding execute_unfold
    by (auto split: if_splits simp: executeViaOpenAI_changes codex_execute_path)
  then show ?thesis by (simp add: executeViaOpenAI_changes)
qed

theorem openai_path_applies_nothing_witness:
  "applyChanges ex_options = Some True \<and>
   changesApplied (parseCodexOutput (''Feasibility: 90'' @ [NL] @ ''Changes applied:'' @ [NL] @ ''- src/a.ts''))
     = [''src/a.ts''] \<and>
   success (fst (executeViaOpenAI ex_manager ex_options ex_api_ok [])) \<and>
   changesApplied (fst (executeViaOpenAI ex_manager ex_options ex_api_ok [])) = []"
  using openai_path_applies_nothing [of ex_manager ex_options ex_api_ok "[]"]
        parse_changes_applied
  by (simp add: ex_options_def executeViaOpenAI_def ex_api_ok_def ex_manager_eval Let_def)

lemma getExecutionManager_cached:
  "getExecutionManager options envKey probe (Some this, trace) = (Inr this, Some this, trace)"
  by (simp add: getExecutionManager_def)

lemma getExecutionManager_first:
  "snd (getExecutionManager options envKey probe (None, trace)) =
     (Some ((new_ExecutionManager options envKey)\<lparr>codexCliAvailable := Some (isInstalled probe)\<rparr>),
      trace @ [ProbeInstalled])"
  by (simp add: getExecutionManager_def initialize_def Let_def)

lemma getExecutionManager_all_cached:
  "getExecutionManager_all calls (Some this, trace) = (Some this, trace)"
proof (induction calls)
  case Nil
  then show ?case by simp
next
  case (Cons c calls)
  obtain options envKey probe where "c = (options, envKey, probe)" by (cases c)
  then show ?case using Cons.IH by (simp add: getExecutionManager_cached)
qed

text \<open>
  C9. The once-only path is the factory, not \<open>initialize\<close>. \<open>getExecutionManager\<close> with an
  instance already stored returns that instance and changes nothing, with no probe; from an
  empty module variable it probes once and stores the manager; so any run of one or more
  \<open>getExecutionManager\<close> calls probes exactly once. \<open>initialize\<close> itself probes on every
  call and overwrites \<open>codexCliAvailable\<close> with the new answer.
\<close>

theorem factory_probes_once:
  "getExecutionManager options envKey probe (Some this, trace) = (Inr this, Some this, trace)
   \<and> fst (snd (getExecutionManager options envKey probe (None, trace))) \<noteq> None
   \<and> snd (snd (getExecutionManager options envKey probe (None, trace))) = trace @ [ProbeInstalled]
   \<and> (calls \<noteq> [] \<longrightarrow> snd (getExecutionManager_all calls (None, trace)) = trace @ [ProbeInstalled])
   \<and> snd (snd (initialize probe (this, trace))) = trace @ [ProbeInstalled]
   \<and> codexCliAvailable (fst (snd (initialize probe (this, trace)))) = Some (isInstalled probe)"
proof -
  have "snd (getExecutionManager_all calls (None, trace)) = trace @ [ProbeInstalled]"
    if nonempty: "calls \<noteq> []"
  proof -
    obtain options' envKey' probe' rest where "calls = (options', envKey', probe') # rest"
      using nonempty by (cases calls) auto
    then show ?thesis
      by (simp add: getExecutionManager_first getExecutionManager_all_cached)
  qed
  then show ?thesis
    by (simp add: getExecutionManager_cached getExecutionManager_first initialize_def Let_def)
qed

theorem factory_probes_once_witness:
  "[(ex_manager_options, Some ''sk-test'', ex_probe_ok),
    (ex_manager_options, Some ''sk-test'', ex_probe_missing)] \<noteq> []
   \<and> getExecutionManager_all
        [(ex_manager_options, Some ''sk-test'', ex_probe_ok),
         (ex_manager_options, Some ''sk-test'', ex_probe_missing)] (None, [])
      = (Some ex_manager, [ProbeInstalled])
   \<and> getExecutionManager ex_manager_options (Some ''sk-test'') ex_probe_missing
        (Some ex_manager, [ProbeInstalled])
      = (Inr ex_manager, Some ex_manager, [ProbeInstalled])"
  using factory_probes_once [where options = ex_manager_options and envKey = "Some ''sk-test''"
          and probe = ex_probe_missing and this = ex_manager and trace = "[ProbeInstalled]"
          and calls = "[]"]
  by (simp add: getExecutionManager_first getExecutionManager_cached ex_manager_eval
        new_ExecutionManager_def ex_manager_options_def ex_probe_ok_def isInstalled_def)

theorem initialize_probes_again:
  "snd (initialize_all [ex_probe_ok, ex_probe_missing]
          (new_ExecutionManager ex_manager_options (Some ''sk-test''), []))
     = [ProbeInstalled, ProbeInstalled]
   \<and> codexCliAvailable (fst (initialize_all [ex_probe_ok]
          (new_ExecutionManager ex_manager_options (Some ''sk-test''), []))) = Some True
   \<and> codexCliAvailable (fst (initialize_all [ex_probe_ok, ex_probe_missing]
          (new_ExecutionManager ex_manager_options (Some ''sk-test''), []))) = Some False"
  by (simp add: initialize_def new_ExecutionManager_def ex_manager_options_def ex_probe_ok_def
        ex_probe_missing_def isInstalled_def Let_def)

subsection \<open>Strings\<close>

lemma str_includes_sublist: "str_includes s p = sublist p s"
  by (induction s) (simp_all add: sublist_Cons_right)

lemma sublist_across_newline:
  assumes "NL \<notin> set p"
  shows "sublist p (a @ NL # b) \<longleftrightarrow> sublist p a \<or> sublist p b"
proof
  assume "sublist p (a @ NL # b)"
  then consider "sublist p a" | "sublist p (NL # b)"
    | xs1 xs2 where "p = xs1 @ xs2" "suffix xs1 a" "prefix xs2 (NL # b)"
    by (auto simp: sublist_append)
  then show "sublist p a \<or> sublist p b"
  proof cases
    case 1
    then show ?thesis by simp
  next
    case 2
    then have "prefix p (NL # b) \<or> sublist p b" by (simp add: sublist_Cons_right)
    moreover have "p = []" if "prefix p (NL # b)"
      using that assms by (cases p) auto
    ultimately show ?thesis by auto
  next
    case 3
    have "xs2 = []" using 3(1,3) assms by (cases xs2) auto
    then show ?thesis using 3 by auto
  qed
next
  assume "sublist p a \<or> sublist p b"
  then show "sublist p (a @ NL # b)"
  proof
    assume "sublist p a"
    then obtain u v where "a = u @ p @ v" by (auto simp: sublist_def)
    then have "a @ NL # b = u @ p @ (v @ NL # b)" by simp
    then show ?thesis unfolding sublist_def by blast
  next
    assume "sublist p b"
    then obtain u v where "b = u @ p @ v" by (auto simp: sublist_def)
    then have "a @ NL # b = (a @ NL # u) @ p @ v" by simp
    then show ?thesis unfolding sublist_def by blast
  qed
qed

lemma digits_nth: "n < 10 \<Longrightarrow> digits ! n \<in> set digits"
  by (rule nth_mem) (simp add: digits_def)

lemma show_nat_digits: "set (show_nat n) \<subseteq> set digits"
proof (induction n rule: show_nat.induct)
  case (1 n)
  show ?case
  proof (cases "n < 10")
    case True
    then show ?thesis using digits_nth [of n] by (subst show_nat.simps) simp
  next
    case False
    have "digits ! (n mod 10) \<in> set digits" by (rule digits_nth) simp
    then show ?thesis using False 1 by (subst show_nat.simps) simp
  qed
qed

lemma suffix_last: "suffix xs s \<Longrightarrow> xs \<noteq> [] \<Longrightarrow> last s = last xs"
  by (auto simp: suffix_def)

section \<open>The change proposal engine\<close>

lemma md_is_no_source_extension:
  assumes "endsWith s ''.md''"
  shows "\<not> endsWith s ''.ts''" "\<not> endsWith s ''.tsx''" "\<not> endsWith s ''.js''"
    "\<not> endsWith s ''.jsx''" "\<not> endsWith s ''.py''"
proof -
  have d: "last s = CHR ''d''"
    using assms suffix_last [of "''.md''" s] by (simp add: endsWith_def)
  show "\<not> endsWith s ''.ts''"
    using d suffix_last [of "''.ts''" s] by (auto simp: endsWith_def)
  show "\<not> endsWith s ''.tsx''"
    using d suffix_last [of "''.tsx''" s] by (auto simp: endsWith_def)
  show "\<not> endsWith s ''.js''"
    using d suffix_last [of "''.js''" s] by (auto simp: endsWith_def)
  show "\<not> endsWith s ''.jsx''"
    using d suffix_last [of "''.jsx''" s] by (auto simp: endsWith_def)
  show "\<not> endsWith s ''.py''"
    using d suffix_last [of "''.py''" s] by (auto simp: endsWith_def)
qed

lemma impact_examples:
  "assessImpact file_modify ''docs/guide.md'' = low"
  "assessImpact file_delete ''legacy/old.ts'' = high"
  "assessImpact file_create ''src/widget.ts'' = medium"
  "assessImpact file_modify ''package.json'' = high"
  "assessImpact file_modify ''docs/index.md'' = high"
  "assessImpact dependency_add ''README.md'' = medium"
  by code_simp+

lemma guide_md_has_no_marker:
  "\<forall>m \<in> set [''package.json'', ''tsconfig'', ''.env'', ''config'', ''main'', ''index''].
     \<not> str_includes (toLowerCase ''docs/guide.md'') m"
  by code_simp

lemma md_suffix_examples:
  "endsWith (toLowerCase ''docs/guide.md'') ''.md''"
  "endsWith (toLowerCase ''docs/index.md'') ''.md''"
  "endsWith (toLowerCase ''README.md'') ''.md''"
  by code_simp+

text \<open>
  C7. \<open>assessImpact\<close> is a priority rule on the lower-cased path and the kind. The impact is
  high exactly when the path contains one of the six markers or the kind is delete; medium
  exactly when that fails and the path ends with one of the five source extensions or the
  kind is a dependency addition; low exactly when both fail. So a delete is high whatever
  the path, and a path ending in \<open>.md\<close> is low when it contains no marker and the kind is
  neither delete nor dependency addition.
\<close>

theorem assessImpact_priority:
  "(assessImpact ty p = high \<longleftrightarrow>
      (\<exists>m \<in> set [''package.json'', ''tsconfig'', ''.env'', ''config'', ''main'', ''index''].
         str_includes (toLowerCase p) m) \<or> ty = file_delete)
   \<and> (assessImpact ty p = medium \<longleftrightarrow>
        \<not> ((\<exists>m \<in> set [''package.json'', ''tsconfig'', ''.env'', ''config'', ''main'', ''index''].
              str_includes (toLowerCase p) m) \<or> ty = file_delete) \<and>
        ((\<exists>e \<in> set [''.ts'', ''.tsx'', ''.js'', ''.jsx'', ''.py'']. endsWith (toLowerCase p) e) \<or>
         ty = dependency_add))
   \<and> (assessImpact ty p = low \<longleftrightarrow>
        \<not> ((\<exists>m \<in> set [''package.json'', ''tsconfig'', ''.env'', ''config'', ''main'', ''index''].
              str_includes (toLowerCase p) m) \<or> ty = file_delete) \<and>
        \<not> ((\<exists>e \<in> set [''.ts'', ''.tsx'', ''.js'', ''.jsx'', ''.py'']. endsWith (toLowerCase p) e) \<or>
           ty = dependency_add))
   \<and> assessImpact file_delete p = high
   \<and> (endsWith (toLowerCase p) ''.md'' \<and> ty \<noteq> file_delete \<and> ty \<noteq> dependency_add \<and>
       (\<forall>m \<in> set [''package.json'', ''tsconfig'', ''.env'', ''config'', ''main'', ''index''].
          \<not> str_includes (toLowerCase p) m)
       \<longrightarrow> assessImpact ty p = low)"
proof -
  have rule: "assessImpact ty p =
      (if (\<exists>m \<in> set [''package.json'', ''tsconfig'', ''.env'', ''config'', ''main'', ''index''].
             str_includes (toLowerCase p) m) \<or> ty = file_delete then high
       else if (\<exists>e \<in> set [''.ts'', ''.tsx'', ''.js'', ''.jsx'', ''.py''].
                  endsWith (toLowerCase p) e) \<or> ty = dependency_add then medium
       else low)" for ty
    by (simp add: assessImpact_def Let_def)
  have md: "assessImpact ty p = low"
    if "endsWith (toLowerCase p) ''.md''" "ty \<noteq> file_delete" "ty \<noteq> dependency_add"
      "\<forall>m \<in> set [''package.json'', ''tsconfig'', ''.env'', ''config'', ''main'', ''index''].
          \<not> str_includes (toLowerCase p) m"
    using that md_is_no_source_extension [OF that(1)] by (simp add: assessImpact_def Let_def)
  have del: "assessImpact file_delete p = high"
    by (simp add: assessImpact_def Let_def)
  show ?thesis
    unfolding rule using md [unfolded rule] by (simp split: if_splits)
qed

theorem assessImpact_priority_witness:
  "endsWith (toLowerCase ''docs/guide.md'') ''.md''
   \<and> \<not> str_includes (toLowerCase ''docs/guide.md'') ''package.json''
   \<and> \<not> str_includes (toLowerCase ''docs/guide.md'') ''tsconfig''
   \<and> \<not> str_includes (toLowerCase ''docs/guide.md'') ''.env''
   \<and> \<not> str_includes (toLowerCase ''docs/guide.md'') ''config''
   \<and> \<not> str_includes (toLowerCase ''docs/guide.md'') ''main''
   \<and> \<not> str_includes (toLowerCase ''docs/guide.md'') ''index''
   \<and> file_modify \<noteq> file_delete \<and> file_modify \<noteq> dependency_add
   \<and> assessImpact file_modify ''docs/guide.md'' = low
   \<and> assessImpact file_delete ''docs/guide.md'' = high"
  using assessImpact_priority [of file_modify "''docs/guide.md''"]
        guide_md_has_no_marker md_suffix_examples(1)
  by simp

theorem md_path_can_be_high_or_medium:
  "endsWith (toLowerCase ''docs/index.md'') ''.md''
   \<and> file_modify \<noteq> file_delete
   \<and> assessImpact file_modify ''docs/index.md'' = high
   \<and> endsWith (toLowerCase ''README.md'') ''.md''
   \<and> dependency_add \<noteq> file_delete
   \<and> assessImpact dependency_add ''README.md'' = medium"
  by (simp add: impact_examples md_suffix_examples)

lemma warning_sentence_no_newline: "NL \<notin> set (warning_sentence n)"
proof -
  have "NL \<notin> set digits" by (simp add: digits_def NL_def)
  then have "NL \<notin> set (show_nat n)" using show_nat_digits [of n] by blast
  then show ?thesis by (simp add: warning_sentence_def NL_def)
qed

lemma warning_sentence_has_W: "CHR ''W'' \<in> set (warning_sentence n)"
  by (simp add: warning_sentence_def)

text \<open>What follows the summary when no change has high impact, after the first line feed.\<close>

lemma safe_tail_has_no_W:
  "CHR ''W'' \<notin> set (tl confirmation_head @ safe_sentence @ confirmation_foot)"
  by (simp add: confirmation_head_def safe_sentence_def confirmation_foot_def NL_def)

lemma message_unfold:
  "message (createConfirmationRequest changes) =
     generateConfirmationSummary changes @ confirmation_head @
     (if length (filter (\<lambda>c. impact c = high) changes) > 0
      then warning_sentence (length (filter (\<lambda>c. impact c = high) changes))
      else safe_sentence) @ confirmation_foot"
  by (simp add: createConfirmationRequest_def Let_def)

lemma safe_message_warning:
  assumes "length (filter (\<lambda>c. impact c = high) changes) = 0"
  shows "sublist (warning_sentence n) (message (createConfirmationRequest changes)) \<longleftrightarrow>
         sublist (warning_sentence n) (generateConfirmationSummary changes)"
proof -
  let ?tail = "tl confirmation_head @ safe_sentence @ confirmation_foot"
  have msg: "message (createConfirmationRequest changes) =
      generateConfirmationSummary changes @ NL # ?tail"
    using assms by (simp add: message_unfold confirmation_head_def)
  have "\<not> sublist (warning_sentence n) ?tail"
    using set_mono_sublist [of "warning_sentence n" ?tail] warning_sentence_has_W [of n]
      safe_tail_has_no_W by blast
  then show ?thesis
    unfolding msg using sublist_across_newline [OF warning_sentence_no_newline] by simp
qed

lemma ex_change_warning_impact: "impact ex_change_warning = low"
  by code_simp

lemma ex_change_impacts: "impact ex_change_delete = high" "impact ex_change_doc = low"
  by code_simp+

text \<open>
  C8. \<open>createConfirmationRequest\<close> requires approval exactly when the list is not empty,
  whatever the impacts; for the empty list it requires none and its message begins with
  \<open>No changes detected.\<close>. With a high-impact change the message contains the warning
  sentence with the count. With none, the template puts the sentence that the changes appear
  safe in its place, and the message contains a warning sentence only where the summary of
  the proposals itself does.
\<close>

theorem confirmation_gating:
  "(requiresApproval (createConfirmationRequest changes) \<longleftrightarrow> changes \<noteq> [])
   \<and> highImpactCount (createConfirmationRequest changes) =
       length (filter (\<lambda>c. impact c = high) changes)
   \<and> \<not> requiresApproval (createConfirmationRequest [])
   \<and> startsWith (message (createConfirmationRequest [])) ''No changes detected.''
   \<and> (highImpactCount (createConfirmationRequest changes) > 0 \<longrightarrow>
        str_includes (message (createConfirmationRequest changes))
          (warning_sentence (highImpactCount (createConfirmationRequest changes))))
   \<and> (highImpactCount (createConfirmationRequest changes) = 0 \<longrightarrow>
        str_includes (message (createConfirmationRequest changes)) safe_sentence \<and>
        (str_includes (message (createConfirmationRequest changes)) (warning_sentence n) \<longleftrightarrow>
         str_includes (generateConfirmationSummary changes) (warning_sentence n)))"
proof -
  have count: "highImpactCount (createConfirmationRequest changes) =
      length (filter (\<lambda>c. impact c = high) changes)"
    by (simp add: createConfirmationRequest_def Let_def)
  have approval: "requiresApproval (createConfirmationRequest cs) \<longleftrightarrow> cs \<noteq> []" for cs
    by (simp add: createConfirmationRequest_def Let_def)
  have empty: "startsWith (message (createConfirmationRequest [])) ''No changes detected.''"
    by (simp add: message_unfold generateConfirmationSummary_def startsWith_def)
  have warn: "str_includes (message (createConfirmationRequest changes))
      (warning_sentence (length (filter (\<lambda>c. impact c = high) changes)))"
    if "length (filter (\<lambda>c. impact c = high) changes) > 0"
  proof -
    have "message (createConfirmationRequest changes) =
        (generateConfirmationSummary changes @ confirmation_head) @
        warning_sentence (length (filter (\<lambda>c. impact c = high) changes)) @ confirmation_foot"
      using that by (simp add: message_unfold)
    then show ?thesis
      unfolding str_includes_sublist sublist_def by blast
  qed
  have safe: "str_includes (message (createConfirmationRequest changes)) safe_sentence"
    if "length (filter (\<lambda>c. impact c = high) changes) = 0"
  proof -
    have "message (createConfirmationRequest changes) =
        (generateConfirmationSummary changes @ confirmation_head) @
        safe_sentence @ confirmation_foot"
      using that by (simp add: message_unfold)
    then show ?thesis
      unfolding str_includes_sublist sublist_def by blast
  qed
  show ?thesis
    using approval empty warn safe safe_message_warning [of changes n]
    by (simp add: count str_includes_sublist)
qed

theorem confirmation_gating_witness:
  "[ex_change_delete, ex_change_doc] \<noteq> []
   \<and> requiresApproval (createConfirmationRequest [ex_change_delete, ex_change_doc])
   \<and> highImpactCount (createConfirmationRequest [ex_change_delete, ex_change_doc]) = 1
   \<and> str_includes (message (createConfirmationRequest [ex_change_delete, ex_change_doc]))
        (warning_sentence 1)
   \<and> requiresApproval (createConfirmationRequest [ex_change_doc])
   \<and> highImpactCount (createConfirmationRequest [ex_change_doc]) = 0
   \<and> str_includes (message (createConfirmationRequest [ex_change_doc])) safe_sentence"
proof -
  have c2: "highImpactCount (createConfirmationRequest [ex_change_delete, ex_change_doc]) = 1"
    by (simp add: createConfirmationRequest_def Let_def ex_change_impacts)
  have c1: "highImpactCount (createConfirmationRequest [ex_change_doc]) = 0"
    by (simp add: createConfirmationRequest_def Let_def ex_change_impacts)
  have n2: "[ex_change_delete, ex_change_doc] \<noteq> []" and n1: "[ex_change_doc] \<noteq> []"
    by simp_all
  have "0 < highImpactCount (createConfirmationRequest [ex_change_delete, ex_change_doc])"
    by (simp only: c2)
  then have "str_includes (message (createConfirmationRequest [ex_change_delete, ex_change_doc]))
      (warning_sentence (highImpactCount (createConfirmationRequest [ex_change_delete, ex_change_doc])))"
    using confirmation_gating [of "[ex_change_delete, ex_change_doc]"] by blast
  then have w: "str_includes (message (createConfirmationRequest [ex_change_delete, ex_change_doc]))
      (warning_sentence 1)"
    by (simp only: c2)
  have s: "str_includes (message (createConfirmationRequest [ex_change_doc])) safe_sentence"
    using confirmation_gating [of "[ex_change_doc]"] c1 by blast
  have a2: "requiresApproval (createConfirmationRequest [ex_change_delete, ex_change_doc])"
    using confirmation_gating [of "[ex_change_delete, ex_change_doc]"] n2 by blast
  have a1: "requiresApproval (createConfirmationRequest [ex_change_doc])"
    using confirmation_gating [of "[ex_change_doc]"] n1 by blast
  show ?thesis using n2 a2 c2 w a1 c1 s by blast
qed

theorem warning_sentence_without_high_impact:
  "highImpactCount (createConfirmationRequest [ex_change_warning]) = 0
   \<and> str_includes (message (createConfirmationRequest [ex_change_warning])) (warning_sentence 1)"
proof -
  have "generateConfirmationSummary [ex_change_warning] =
      (''## Proposed Changes'' @ [NL, NL] @ ''Total: '' @ show_nat 1 @ '' change(s)'' @ [NL, NL] @
       ''### Low Impact'' @ [NL] @ ''- file_modify: Modify existing file: '') @
      warning_sentence 1 @ [NL]"
    by (simp add: generateConfirmationSummary_def Let_def ex_change_warning_impact has_diff_def)
       (simp add: ex_change_warning_def)
  then have "sublist (warning_sentence 1) (generateConfirmationSummary [ex_change_warning])"
    unfolding sublist_def by blast
  then have "sublist (warning_sentence 1)
      (generateConfirmationSummary [ex_change_warning] @
       (confirmation_head @ safe_sentence @ confirmation_foot))"
    unfolding sublist_def by (metis append.assoc)
  then show ?thesis
    by (simp add: createConfirmationRequest_def Let_def ex_change_warning_impact
          str_includes_sublist)
qed

section \<open>The backend invoker\<close>

lemma em_default_same: "em_getDefaultParsedResult = getDefaultParsedResult"
  by (simp add: em_getDefaultParsedResult_def getDefaultParsedResult_def)

lemma parsed_of_with_parsed [simp]: "parsed_of (with_parsed p ok md pth out err msg quota) = p"
  by (simp add: parsed_of_def with_parsed_def)

lemma with_parsed_fields [simp]:
  "success (with_parsed p ok md pth out err msg quota) = ok"
  "quotaExhausted (with_parsed p ok md pth out err msg quota) = quota"
  "error_msg (with_parsed p ok md pth out err msg quota) = msg"
  "executionPath (with_parsed p ok md pth out err msg quota) = pth"
  by (simp_all add: with_parsed_def)

lemma spawnCodex_timed_out:
  "spawnCodex app tmo (Close True code out err) =
     with_parsed getDefaultParsedResult False (mode_of app) codex_cli out err
       (Some (''Codex CLI timed out after '' @ show_nat tmo @ ''ms'')) (Some False)"
  by (simp add: spawnCodex_def)

lemma spawnCodex_quota:
  "isQuotaError err \<or> isQuotaError out \<Longrightarrow>
   spawnCodex app tmo (Close False code out err) =
     with_parsed getDefaultParsedResult False (mode_of app) codex_cli out err
       (Some ''Codex CLI Pro quota exhausted'') (Some True)"
  by (simp add: spawnCodex_def)

lemma spawnCodex_exited:
  "\<not> isQuotaError err \<Longrightarrow> \<not> isQuotaError out \<Longrightarrow>
   spawnCodex app tmo (Close False code out err) =
     with_parsed (parseCodexOutput (if out \<noteq> [] then out else err)) (code = Some 0)
       (mode_of app) codex_cli out err
       (if code \<noteq> Some 0 then Some (''Codex CLI exited with code '' @ show_code code) else None)
       (Some False)"
  by (simp add: spawnCodex_def Let_def)

lemma spawnCodex_error:
  "parsed_of (spawnCodex app tmo (SpawnError enoent msg)) = getDefaultParsedResult"
  by (simp add: spawnCodex_def Let_def)

lemma executeViaOpenAI_failed:
  "\<not> success (fst (executeViaOpenAI this options api trace)) \<Longrightarrow>
   parsed_of (fst (executeViaOpenAI this options api trace)) = getDefaultParsedResult"
  by (auto simp: executeViaOpenAI_def Let_def em_default_same
        split: if_splits ApiOutcome.splits)





text \<open>
  C2. A failed invocation carries the canned record, except a CLI run that closed on its own
  with an exit code other than 0 and no quota phrase: its output is parsed all the same. The
  canned record (scores 50 and 50, the one risk \<open>Unable to complete analysis\<close>, the one gap
  \<open>Analysis incomplete\<close>, complexity medium, every other list empty) is what a timed-out
  run, a quota-exhausted run, a run that could not be spawned and every failed OpenAI
  request return, whatever the raw text.
\<close>

theorem degraded_record:
  "parsed_of (spawnCodex app tmo (Close True code out err)) = getDefaultParsedResult
   \<and> (isQuotaError err \<or> isQuotaError out \<longrightarrow>
        parsed_of (spawnCodex app tmo (Close False code out err)) = getDefaultParsedResult)
   \<and> parsed_of (spawnCodex app tmo (SpawnError enoent msg)) = getDefaultParsedResult
   \<and> (\<not> success (fst (executeViaOpenAI this options api trace)) \<longrightarrow>
        parsed_of (fst (executeViaOpenAI this options api trace)) = getDefaultParsedResult)
   \<and> (\<not> isQuotaError err \<and> \<not> isQuotaError out \<longrightarrow>
        parsed_of (spawnCodex app tmo (Close False code out err)) =
          parseCodexOutput (if out \<noteq> [] then out else err) \<and>
        (success (spawnCodex app tmo (Close False code out err)) \<longleftrightarrow> code = Some 0))
   \<and> getDefaultParsedResult =
        \<lparr> feasibility =
            \<lparr> score = 50, blockers = [], risks = [''Unable to complete analysis''],
              dependencies_missing = [] \<rparr>,
          codeReview = \<lparr> suggestions = [], best_practice_violations = [], improvements = [] \<rparr>,
          implementationAnalysis =
            \<lparr> completeness = 50, gaps = [''Analysis incomplete''],
              estimated_complexity = ''medium'' \<rparr>,
          changesApplied = [] \<rparr>"
proof -
  have "parsed_of (spawnCodex app tmo (Close False code out err)) =
          parseCodexOutput (if out \<noteq> [] then out else err) \<and>
        (success (spawnCodex app tmo (Close False code out err)) \<longleftrightarrow> code = Some 0)"
    if "\<not> isQuotaError err" "\<not> isQuotaError out"
    using spawnCodex_exited [OF that, of app tmo code] by simp
  moreover have "parsed_of (spawnCodex app tmo (Close False code out err)) = getDefaultParsedResult"
    if "isQuotaError err \<or> isQuotaError out"
    using spawnCodex_quota [OF that, of app tmo code] by simp
  ultimately show ?thesis
    using executeViaOpenAI_failed [of this options api trace]
    by (simp add: spawnCodex_timed_out spawnCodex_error) (simp add: getDefaultParsedResult_def)
qed

theorem degraded_record_witness:
  "isQuotaError ''Error: 429 Too Many Requests''
   \<and> parsed_of (spawnCodex False 1000 (Close False (Some 1) ''Feasibility: 85'' ''Error: 429 Too Many Requests''))
       = getDefaultParsedResult
   \<and> parsed_of (spawnCodex False 1000 (Close True None ''Feasibility: 85'' [])) = getDefaultParsedResult
   \<and> \<not> success (fst (executeViaOpenAI ex_manager ex_options ex_api_failed []))
   \<and> parsed_of (fst (executeViaOpenAI ex_manager ex_options ex_api_failed [])) = getDefaultParsedResult
   \<and> \<not> isQuotaError ''Feasibility: 85'' \<and> \<not> isQuotaError []
   \<and> parsed_of (spawnCodex False 1000 (Close False (Some 1) ''Feasibility: 85'' []))
       = parseCodexOutput ''Feasibility: 85''"
proof -
  have f: "\<not> success (fst (executeViaOpenAI ex_manager ex_options ex_api_failed []))"
    by (simp add: executeViaOpenAI_def ex_manager_eval ex_api_failed_def Let_def)
  show ?thesis
    using degraded_record [of False 1000 "Some 1" "''Feasibility: 85''"
            "''Error: 429 Too Many Requests''" True "[]" ex_manager ex_options ex_api_failed "[]"]
          degraded_record [of False 1000 None "''Feasibility: 85''" "[]"
            True "[]" ex_manager ex_options ex_api_failed "[]"]
          degraded_record [of False 1000 "Some 1" "''Feasibility: 85''" "[]"
            True "[]" ex_manager ex_options ex_api_failed "[]"]
          isQuotaError_429 isQuotaError_feasibility isQuotaError_empty f
    by simp
qed

theorem failed_run_is_parsed:
  "\<not> success (spawnCodex False 1000 ex_cli_partial)
   \<and> score (feasibility (spawnCodex False 1000 ex_cli_partial)) = 85
   \<and> risks (feasibility (spawnCodex False 1000 ex_cli_partial)) = []
   \<and> gaps (implementationAnalysis (spawnCodex False 1000 ex_cli_partial)) = []
   \<and> parsed_of (spawnCodex False 1000 ex_cli_partial) \<noteq> getDefaultParsedResult"
  using spawnCodex_exited [OF isQuotaError_empty isQuotaError_feasibility, of False 1000 "Some 1"]
  by (simp add: ex_cli_partial_def with_parsed_def parse_feasibility_85 parsed_of_def
        getDefaultParsedResult_def)

lemma extractListItems_st_eq: "extractListItems_st this block w = (extractListItems block, w)"
  by (simp add: extractListItems_st_def extractListItems_def)

lemma section_items_st_eq:
  "section_items_st this r output dflt w = (section_items r output dflt, w)"
  by (simp add: section_items_st_def section_items_def extractListItems_st_eq split: option.splits)

lemma parseCodexOutput_st_eq: "parseCodexOutput_st this output w = (parseCodexOutput output, w)"
proof -
  have "map f (section_items suggestions_rx output []) =
      (case rx_search suggestions_rx output of None \<Rightarrow> []
       | Some block \<Rightarrow> map f (extractListItems block))" for f :: "string \<Rightarrow> CodexSuggestion"
    by (simp add: section_items_def split: option.splits)
  then show ?thesis
    by (simp add: parseCodexOutput_st_def parseCodexOutput_def section_items_st_eq)
qed

lemma quota_run_logs:
  "console (spawnCodex_log ex_service ex_cli_quota ex_world) =
     [(stream_warn, ''[CodexService][WARN] Codex CLI quota exhausted'')]"
  by (simp add: spawnCodex_log_def ex_service_def new_CodexService_def default_logger_def
        ex_cli_quota_def ex_world_def isQuotaError_429 Let_def)

text \<open>
  C5. \<open>parseCodexOutput\<close> is pure and deterministic. Called on any service object, in any
  state of the world, it returns the same record for the same text: the record does not
  depend on the object (its logger) or on the world (the console, the environment), the
  call leaves the world as it was, and a second call on the same text, in the world the
  first call left, returns the same record in every field.
\<close>

theorem parseCodexOutput_pure:
  "fst (parseCodexOutput_st this1 output w1) = fst (parseCodexOutput_st this2 output w2)
   \<and> snd (parseCodexOutput_st this1 output w1) = w1
   \<and> fst (parseCodexOutput_st this1 output (snd (parseCodexOutput_st this1 output w1))) =
       fst (parseCodexOutput_st this1 output w1)
   \<and> fst (parseCodexOutput_st this1 output w1) = parseCodexOutput output"
  by (simp add: parseCodexOutput_st_eq)

theorem parseCodexOutput_pure_witness:
  "console ex_world = []
   \<and> console (spawnCodex_log ex_service ex_cli_quota ex_world) =
       [(stream_warn, ''[CodexService][WARN] Codex CLI quota exhausted'')]
   \<and> fst (parseCodexOutput_st ex_service ''Feasibility: 85'' ex_world) =
       fst (parseCodexOutput_st ex_service_loud ''Feasibility: 85''
              (spawnCodex_log ex_service ex_cli_quota ex_world))
   \<and> snd (parseCodexOutput_st ex_service_loud ''Feasibility: 85''
              (spawnCodex_log ex_service ex_cli_quota ex_world)) =
       spawnCodex_log ex_service ex_cli_quota ex_world
   \<and> score (feasibility (fst (parseCodexOutput_st ex_service ''Feasibility: 85'' ex_world))) = 85"
proof -
  note pure1 = parseCodexOutput_pure [of ex_service "''Feasibility: 85''" ex_world
      ex_service_loud "spawnCodex_log ex_service ex_cli_quota ex_world"]
  note pure2 = parseCodexOutput_pure [of ex_service_loud "''Feasibility: 85''"
      "spawnCodex_log ex_service ex_cli_quota ex_world" ex_service ex_world]
  have c: "console ex_world = []" by (simp add: ex_world_def)
  have "fst (parseCodexOutput_st ex_service ''Feasibility: 85'' ex_world) =
      parseCodexOutput ''Feasibility: 85''"
    using pure1 by blast
  then have s: "score (feasibility (fst (parseCodexOutput_st ex_service ''Feasibility: 85'' ex_world))) = 85"
    by (simp only: parse_feasibility_85) simp
  show ?thesis using pure1 pure2 c s quota_run_logs by blast
qed

section \<open>The structured extraction engine\<close>

text \<open>What a match leaves is a suffix of what it started from.\<close>

lemma rx_match_suffix:
  "st' \<in> set (rx_match r st) \<Longrightarrow> suffix (fst st') (fst st)"
proof (induction r st arbitrary: st' rule: rx_match.induct)
  case (1 st)
  then show ?case by simp
next
  case (2 a s cap)
  then show ?case by (auto split: list.splits if_splits simp: suffix_ConsI)
next
  case (3 P s cap)
  then show ?case by (auto split: list.splits if_splits simp: suffix_ConsI)
next
  case (4 r1 r2 st)
  from 4(3) have "st' \<in> set (concat (map (rx_match r2) (rx_match r1 st)))"
    by (simp only: rx_match.simps)
  then obtain m where m: "m \<in> set (rx_match r1 st)" "st' \<in> set (rx_match r2 m)"
    unfolding set_concat set_map by blast
  have a: "suffix (fst m) (fst st)" using m(1) by (rule 4(1))
  have b: "suffix (fst st') (fst m)" using m by (rule 4(2))
  from b a show ?case by (rule suffix_order.trans)
next
  case (5 r1 r2 st)
  from 5(3) have "st' \<in> set (rx_match r1 st) \<or> st' \<in> set (rx_match r2 st)"
    by (simp only: rx_match.simps set_append Un_iff)
  then show ?case
  proof
    assume "st' \<in> set (rx_match r1 st)"
    then show ?thesis by (rule 5(1))
  next
    assume "st' \<in> set (rx_match r2 st)"
    then show ?thesis by (rule 5(2))
  qed
next
  case (6 r st)
  from 6(2) have "st' \<in> set (rx_match r st) \<or> st' = st"
    by (simp only: rx_match.simps set_append Un_iff list.set insert_iff empty_iff) blast
  then show ?case
  proof
    assume "st' \<in> set (rx_match r st)"
    then show ?thesis by (rule 6(1))
  next
    assume "st' = st"
    then show ?thesis by simp
  qed
next
  case (7 r st)
  let ?f = "\<lambda>m. if length (fst m) < length (fst st) then rx_match (Star r) m else []"
  have unfolded: "rx_match (Star r) st = concat (map ?f (rx_match r st)) @ [st]"
    by (rule rx_match_Star)
  from 7(3) have "st' \<in> set (concat (map ?f (rx_match r st)) @ [st])"
    by (simp only: unfolded)
  then have "st' \<in> set (concat (map ?f (rx_match r st))) \<or> st' \<in> set [st]"
    by (simp only: set_append Un_iff)
  then show ?case
  proof
    assume "st' \<in> set [st]"
    then show ?thesis by simp
  next
    assume "st' \<in> set (concat (map ?f (rx_match r st)))"
    then obtain m where m: "m \<in> set (rx_match r st)" "st' \<in> set (?f m)"
      unfolding set_concat set_map by blast
    have lt: "length (fst m) < length (fst st)"
    proof (rule ccontr)
      assume "\<not> length (fst m) < length (fst st)"
      then have "?f m = []" by (simp only: if_False)
      then show False using m(2) by simp
    qed
    then have "?f m = rx_match (Star r) m" by (simp only: if_True)
    then have s: "st' \<in> set (rx_match (Star r) m)" using m(2) by simp
    have a: "suffix (fst m) (fst st)" using m(1) by (rule 7(1))
    have b: "suffix (fst st') (fst m)" using m(1) lt s by (rule 7(2))
    from b a show ?thesis by (rule suffix_order.trans)
  qed
next
  case (8 r s cap)
  from 8(2) have "st' \<in> set (map (\<lambda>(t, _). (t, Some (take (length s - length t) s)))
      (rx_match r (s, cap)))"
    by (simp only: rx_match.simps)
  then obtain x where x: "x \<in> set (rx_match r (s, cap))" "fst st' = fst x"
    unfolding set_map by (auto simp: case_prod_beta)
  have "suffix (fst x) (fst (s, cap))" using x(1) by (rule 8(1))
  then show ?case using x(2) by simp
qed

lemma rx_match_Cls_Seq:
  assumes "st' \<in> set (rx_match (Seq (Cls P) r) (s, cap))"
  shows "\<exists>c t. s = c # t \<and> P c"
proof -
  from assms have "st' \<in> set (concat (map (rx_match r) (rx_match (Cls P) (s, cap))))"
    by (simp only: rx_match.simps)
  then have "rx_match (Cls P) (s, cap) \<noteq> []"
    by auto
  then show ?thesis
    by (cases s) (simp_all split: if_splits)
qed

text \<open>
  An expression that ends in \<open>(\d+)\<close>, or in one or more characters of any class, matches
  only where the input holds such a character.
\<close>

lemma rx_match_needs_char:
  assumes "st' \<in> set (rx_match (Seq h (Seq sp (Grp (Plus (Cls P))))) (s, cap))"
  shows "\<exists>c \<in> set s. P c"
proof -
  from assms have "st' \<in> set (concat (map (rx_match (Seq sp (Grp (Plus (Cls P)))))
      (rx_match h (s, cap))))"
    by (simp only: rx_match.simps)
  then obtain m1 where m1: "m1 \<in> set (rx_match h (s, cap))"
    "st' \<in> set (rx_match (Seq sp (Grp (Plus (Cls P)))) m1)"
    unfolding set_concat set_map by blast
  from m1(2) have "st' \<in> set (concat (map (rx_match (Grp (Plus (Cls P)))) (rx_match sp m1)))"
    by (simp only: rx_match.simps)
  then obtain m2 where m2: "m2 \<in> set (rx_match sp m1)"
    "st' \<in> set (rx_match (Grp (Plus (Cls P))) m2)"
    unfolding set_concat set_map by blast
  obtain s2 c2 where p2: "m2 = (s2, c2)" by (cases m2)
  from m2(2) have "st' \<in> set (map (\<lambda>(t, _). (t, Some (take (length s2 - length t) s2)))
      (rx_match (Seq (Cls P) (Star (Cls P))) (s2, c2)))"
    unfolding p2 Plus_def by (simp only: rx_match.simps)
  then obtain x where "x \<in> set (rx_match (Seq (Cls P) (Star (Cls P))) (s2, c2))"
    unfolding set_map by blast
  then have "\<exists>c t. s2 = c # t \<and> P c" by (rule rx_match_Cls_Seq)
  then obtain c t where ct: "s2 = c # t" "P c" by blast
  have a: "suffix (fst m1) s" using rx_match_suffix [OF m1(1)] by simp
  have b: "suffix s2 (fst m1)" using rx_match_suffix [OF m2(1)] p2 by simp
  from b a have "suffix s2 s" by (rule suffix_order.trans)
  then have "set s2 \<subseteq> set s" by (rule set_mono_suffix)
  then show ?thesis using ct by auto
qed

lemma rx_search_none:
  "(\<forall>c \<in> set s. \<not> P c) \<Longrightarrow> rx_search (Seq h (Seq sp (Grp (Plus (Cls P))))) s = None"
proof (induction s)
  case Nil
  let ?R = "Seq h (Seq sp (Grp (Plus (Cls P))))"
  have e: "rx_match ?R ([], None) = []"
  proof (cases "rx_match ?R ([], None)")
    case Nil
    then show ?thesis .
  next
    case (Cons x xs)
    then have "x \<in> set (rx_match ?R ([], None))" by simp
    then have "\<exists>c \<in> set []. P c" by (rule rx_match_needs_char)
    then show ?thesis by simp
  qed
  have "rx_search ?R [] =
      (case rx_match ?R ([], None) of
         (t, cap) # _ \<Rightarrow> Some (case cap of None \<Rightarrow> [] | Some g \<Rightarrow> g)
       | [] \<Rightarrow> (case ([] :: string) of [] \<Rightarrow> None | _ # s' \<Rightarrow> rx_search ?R s'))"
    by (rule rx_search.simps)
  also have "\<dots> = None" by (simp only: e list.case)
  finally show ?case .
next
  case (Cons a s)
  let ?R = "Seq h (Seq sp (Grp (Plus (Cls P))))"
  have e: "rx_match ?R (a # s, None) = []"
  proof (cases "rx_match ?R (a # s, None)")
    case Nil
    then show ?thesis .
  next
    case (Cons x xs)
    then have "x \<in> set (rx_match ?R (a # s, None))" by simp
    then have "\<exists>c \<in> set (a # s). P c" by (rule rx_match_needs_char)
    then show ?thesis using Cons.prems by blast
  qed
  have "\<forall>c \<in> set s. \<not> P c" using Cons.prems by simp
  then have ih: "rx_search ?R s = None" by (rule Cons.IH)
  have "rx_search ?R (a # s) =
      (case rx_match ?R (a # s, None) of
         (t, cap) # _ \<Rightarrow> Some (case cap of None \<Rightarrow> [] | Some g \<Rightarrow> g)
       | [] \<Rightarrow> (case a # s of [] \<Rightarrow> None | _ # s' \<Rightarrow> rx_search ?R s'))"
    by (rule rx_search.simps)
  also have "\<dots> = None" by (simp only: e ih list.case)
  finally show ?case .
qed

lemma clamp_score_range: "0 \<le> clamp_score ds \<and> clamp_score ds \<le> 100"
  by (simp add: clamp_score_def)

text \<open>
  C1. Where a numeric section is absent or unparsable the score defaults to 70: the
  feasibility score is 70 whenever the feasibility expression has no match in the text, the
  completeness is 70 whenever the completeness expression has none, and both are 70 for a
  text without any digit. A score that is found is the number after the header clamped to
  0..100, \<open>Math.min(100, Math.max(0, n))\<close>. The empty text yields feasibility score 70,
  completeness 70, complexity medium and every list empty.
\<close>

theorem numeric_defaults:
  "(rx_search feasibility_rx output = None \<longrightarrow>
      score (feasibility (parseCodexOutput output)) = 70)
   \<and> (rx_search completeness_rx output = None \<longrightarrow>
      completeness (implementationAnalysis (parseCodexOutput output)) = 70)
   \<and> ((\<forall>c \<in> set output. \<not> isDigit c) \<longrightarrow>
      score (feasibility (parseCodexOutput output)) = 70 \<and>
      completeness (implementationAnalysis (parseCodexOutput output)) = 70)
   \<and> (rx_search feasibility_rx output = Some ds \<longrightarrow>
      score (feasibility (parseCodexOutput output)) = min 100 (max 0 (parseInt10 ds)))
   \<and> (rx_search completeness_rx output = Some ds' \<longrightarrow>
      completeness (implementationAnalysis (parseCodexOutput output)) =
        min 100 (max 0 (parseInt10 ds')))
   \<and> 0 \<le> score (feasibility (parseCodexOutput output))
   \<and> score (feasibility (parseCodexOutput output)) \<le> 100
   \<and> 0 \<le> completeness (implementationAnalysis (parseCodexOutput output))
   \<and> completeness (implementationAnalysis (parseCodexOutput output)) \<le> 100
   \<and> parseCodexOutput [] =
        \<lparr> feasibility = \<lparr> score = 70, blockers = [], risks = [], dependencies_missing = [] \<rparr>,
          codeReview = \<lparr> suggestions = [], best_practice_violations = [], improvements = [] \<rparr>,
          implementationAnalysis =
            \<lparr> completeness = 70, gaps = [], estimated_complexity = ''medium'' \<rparr>,
          changesApplied = [] \<rparr>"
proof -
  have f: "score (feasibility (parseCodexOutput output)) =
      (case rx_search feasibility_rx output of None \<Rightarrow> 70 | Some ds \<Rightarrow> clamp_score ds)"
    by (simp add: parseCodexOutput_def)
  have c: "completeness (implementationAnalysis (parseCodexOutput output)) =
      (case rx_search completeness_rx output of None \<Rightarrow> 70 | Some ds \<Rightarrow> clamp_score ds)"
    by (simp add: parseCodexOutput_def)
  have nf: "rx_search feasibility_rx output = None" if "\<forall>c \<in> set output. \<not> isDigit c"
    unfolding feasibility_rx_def using that by (rule rx_search_none)
  have nc: "rx_search completeness_rx output = None" if "\<forall>c \<in> set output. \<not> isDigit c"
    unfolding completeness_rx_def using that by (rule rx_search_none)
  have rf: "0 \<le> score (feasibility (parseCodexOutput output)) \<and>
      score (feasibility (parseCodexOutput output)) \<le> 100"
    unfolding f using clamp_score_range by (simp split: option.splits)
  have rc: "0 \<le> completeness (implementationAnalysis (parseCodexOutput output)) \<and>
      completeness (implementationAnalysis (parseCodexOutput output)) \<le> 100"
    unfolding c using clamp_score_range by (simp split: option.splits)
  have d: "(\<forall>c \<in> set output. \<not> isDigit c) \<longrightarrow>
      score (feasibility (parseCodexOutput output)) = 70 \<and>
      completeness (implementationAnalysis (parseCodexOutput output)) = 70"
    using nf nc by (simp add: f c)
  have a: "rx_search feasibility_rx output = None \<longrightarrow>
      score (feasibility (parseCodexOutput output)) = 70"
    by (simp add: f)
  have b: "rx_search completeness_rx output = None \<longrightarrow>
      completeness (implementationAnalysis (parseCodexOutput output)) = 70"
    by (simp add: c)
  have e1: "rx_search feasibility_rx output = Some ds \<longrightarrow>
      score (feasibility (parseCodexOutput output)) = min 100 (max 0 (parseInt10 ds))"
    by (simp add: f clamp_score_def)
  have e2: "rx_search completeness_rx output = Some ds' \<longrightarrow>
      completeness (implementationAnalysis (parseCodexOutput output)) =
        min 100 (max 0 (parseInt10 ds'))"
    by (simp add: c clamp_score_def)
  show ?thesis using a b d e1 e2 rf rc parse_empty by blast
qed

lemma search_feasibility_120:
  "rx_search feasibility_rx ''Feasibility: 120'' = Some ''120''"
  by code_simp

lemma parseInt10_120: "parseInt10 ''120'' = 120"
  by code_simp

theorem numeric_defaults_witness:
  "rx_search feasibility_rx ''Feasibility: high'' = None
   \<and> score (feasibility (parseCodexOutput ''Feasibility: high'')) = 70
   \<and> completeness (implementationAnalysis (parseCodexOutput ''Feasibility: high'')) = 70
   \<and> score (feasibility (parseCodexOutput [])) = 70
   \<and> rx_search feasibility_rx ''Feasibility: 120'' = Some ''120''
   \<and> score (feasibility (parseCodexOutput ''Feasibility: 120'')) = 100"
proof -
  have "score (feasibility (parseCodexOutput ''Feasibility: 120'')) =
      min 100 (max 0 (parseInt10 ''120''))"
    using numeric_defaults [of "''Feasibility: 120''" "''120''"] search_feasibility_120 by blast
  then have found: "score (feasibility (parseCodexOutput ''Feasibility: 120'')) = 100"
    by (simp add: parseInt10_120)
  have n: "\<forall>c \<in> set ''Feasibility: high''. \<not> isDigit c"
    by (simp add: isDigit_def digits_def)
  have "rx_search feasibility_rx ''Feasibility: high'' = None"
    unfolding feasibility_rx_def using n by (rule rx_search_none)
  moreover have "score (feasibility (parseCodexOutput ''Feasibility: high'')) = 70 \<and>
      completeness (implementationAnalysis (parseCodexOutput ''Feasibility: high'')) = 70"
    using numeric_defaults [of "''Feasibility: high''"] n by blast
  moreover have "score (feasibility (parseCodexOutput [])) = 70"
    using numeric_defaults [of "[]"] by simp
  ultimately show ?thesis using found search_feasibility_120 by blast
qed

theorem empty_text_defaults_to_70:
  "score (feasibility (parseCodexOutput [])) = 70
   \<and> score (feasibility (parseCodexOutput [])) \<noteq> 50
   \<and> completeness (implementationAnalysis (parseCodexOutput [])) = 70
   \<and> completeness (implementationAnalysis (parseCodexOutput [])) \<noteq> 50"
  by (simp add: parse_empty)

end
